theory Spec2Isabelle
  imports Complex_Main
begin

section \<open>Conventions of the embedding\<close>

text \<open>
  The development embeds the animation and reliability engine of the LED map:
  \<^verbatim>\<open>reliability_manager.py\<close> (SharedClock, FrameRateLimiter, CircuitBreaker) and
  \<^verbatim>\<open>animation_controller.py\<close> (the effects, the compositor and the controller).

  \<^item> Python floats are idealised as \<^typ>\<open>real\<close>: arithmetic is exact, there is no rounding,
    no infinity and no NaN. Python ints are \<^typ>\<open>int\<close>.
  \<^item> Every call of \<^verbatim>\<open>time.time()\<close> is an input of the operation that makes it: the
    wall-clock reading is passed as an argument.
  \<^item> Mutation is explicit state passing: an operation returns the updated object.
  \<^item> A raised exception is the \<open>Inl\<close> branch of a sum; where the source mutates an
    object before it raises, the operation returns the object as well.
  \<^item> Logging and the lock of the controller are not modelled.
\<close>

datatype py_exception =
    Exception string
  | ZeroDivisionError
  | IndexError
  | KeyError string
  | ValueError

text \<open>\<^verbatim>\<open>int(x)\<close> on a float truncates toward zero.\<close>

definition py_int :: "real \<Rightarrow> int" where
  "py_int x = (if 0 \<le> x then \<lfloor>x\<rfloor> else \<lceil>x\<rceil>)"

text \<open>\<^verbatim>\<open>x % y\<close> on floats, for \<open>y \<noteq> 0\<close>: the result takes the sign of the divisor.\<close>

definition py_fmod :: "real \<Rightarrow> real \<Rightarrow> real" where
  "py_fmod x y = x - of_int \<lfloor>x / y\<rfloor> * y"

section \<open>reliability\_manager.py\<close>

subsection \<open>SharedClock\<close>

record SharedClock =
  clock_start_time :: real
  paused :: bool
  pause_offset :: real

definition SharedClock_init :: "real \<Rightarrow> SharedClock" where
  "SharedClock_init wall = \<lparr>clock_start_time = wall, paused = False, pause_offset = 0\<rparr>"

definition get_time :: "SharedClock \<Rightarrow> real \<Rightarrow> real" where
  "get_time c wall =
     (if paused c then clock_start_time c + pause_offset c
      else wall - clock_start_time c + pause_offset c)"

definition SharedClock_pause :: "SharedClock \<Rightarrow> real \<Rightarrow> SharedClock" where
  "SharedClock_pause c wall =
     (if \<not> paused c then c\<lparr>pause_offset := get_time c wall, paused := True\<rparr> else c)"

definition SharedClock_resume :: "SharedClock \<Rightarrow> real \<Rightarrow> SharedClock" where
  "SharedClock_resume c wall =
     (if paused c then c\<lparr>clock_start_time := wall, paused := False\<rparr> else c)"

subsection \<open>FrameRateLimiter\<close>

record FrameRateLimiter =
  limiter_target_fps :: int
  frame_time :: real
  last_frame_time :: real
  frame_skip_count :: int
  max_frame_time :: real

definition FrameRateLimiter_init :: "int \<Rightarrow> py_exception + FrameRateLimiter" where
  "FrameRateLimiter_init fps =
     (if fps = 0 then Inl ZeroDivisionError
      else Inr \<lparr>limiter_target_fps = fps, frame_time = 1 / real_of_int fps,
                last_frame_time = 0, frame_skip_count = 0, max_frame_time = 0.1\<rparr>)"

text \<open>
  \<open>wait_for_next_frame fl t_enter t_exit\<close>: \<open>t_enter\<close> is the reading of the clock on
  entry, \<open>t_exit\<close> the reading after the optional sleep. The counter is incremented before
  the exception is raised, so the limiter is returned in both cases.
\<close>

definition wait_for_next_frame ::
  "FrameRateLimiter \<Rightarrow> real \<Rightarrow> real \<Rightarrow> (py_exception + bool) \<times> FrameRateLimiter" where
  "wait_for_next_frame fl t_enter t_exit =
     (let elapsed = t_enter - last_frame_time fl;
          fl1 = (if elapsed > max_frame_time fl
                  then fl\<lparr>frame_skip_count := frame_skip_count fl + 1\<rparr> else fl)
      in if elapsed > max_frame_time fl \<and> frame_skip_count fl1 > 10
         then (Inl (Exception ''Excessive frame skipping detected - potential hang''), fl1)
         else let fl2 = (if elapsed < frame_time fl
                          then fl1\<lparr>frame_skip_count := 0\<rparr>
                          else fl1\<lparr>frame_skip_count := 0\<rparr>)
              in (Inr True, fl2\<lparr>last_frame_time := t_exit\<rparr>))"

text \<open>
  The render loop: one call per pair of readings, stopping at the first exception.
  The result lists what the calls returned and gives the limiter at the end.
\<close>

fun frame_loop ::
  "FrameRateLimiter \<Rightarrow> (real \<times> real) list \<Rightarrow> (py_exception + bool) list \<times> FrameRateLimiter" where
  "frame_loop fl [] = ([], fl)"
| "frame_loop fl ((t_enter, t_exit) # ts) =
     (case wait_for_next_frame fl t_enter t_exit of
        (Inl e, fl') \<Rightarrow> ([Inl e], fl')
      | (Inr b, fl') \<Rightarrow> (case frame_loop fl' ts of (rs, fl'') \<Rightarrow> (Inr b # rs, fl'')))"

subsection \<open>CircuitBreaker\<close>

datatype breaker_state = CLOSED | OPEN | HALF_OPEN

record CircuitBreaker =
  failure_threshold :: int
  recovery_timeout :: real
  failure_count :: int
  last_failure_time :: real
  breaker_state :: breaker_state

definition CircuitBreaker_init :: "int \<Rightarrow> real \<Rightarrow> CircuitBreaker" where
  "CircuitBreaker_init threshold recovery =
     \<lparr>failure_threshold = threshold, recovery_timeout = recovery, failure_count = 0,
      last_failure_time = 0, breaker_state = CLOSED\<rparr>"

text \<open>
  The delegate \<open>func\<close> acts on a world \<open>'w\<close> and returns a value or raises.
  \<open>t_enter\<close> is the clock reading of the test of an open breaker, \<open>t_fail\<close> the reading
  in the exception handler. A call that does not invoke the delegate returns the world
  it was given.
\<close>

definition call ::
  "CircuitBreaker \<Rightarrow> real \<Rightarrow> real \<Rightarrow> ('w \<Rightarrow> (py_exception + 'a) \<times> 'w) \<Rightarrow> 'w
     \<Rightarrow> (py_exception + 'a) \<times> CircuitBreaker \<times> 'w" where
  "call cb t_enter t_fail func w =
     (if breaker_state cb = OPEN \<and> \<not> (t_enter - last_failure_time cb > recovery_timeout cb)
      then (Inl (Exception ''Circuit breaker is OPEN''), cb, w)
      else
        let cb1 = (if breaker_state cb = OPEN then cb\<lparr>breaker_state := HALF_OPEN\<rparr> else cb)
        in case func w of
             (Inr result, w') \<Rightarrow>
               (Inr result,
                (if breaker_state cb1 = HALF_OPEN
                 then cb1\<lparr>breaker_state := CLOSED, failure_count := 0\<rparr> else cb1),
                w')
           | (Inl e, w') \<Rightarrow>
               (let cb2 = cb1\<lparr>failure_count := failure_count cb1 + 1,
                              last_failure_time := t_fail\<rparr>
                in (Inl e,
                    (if failure_count cb2 \<ge> failure_threshold cb2
                     then cb2\<lparr>breaker_state := OPEN\<rparr> else cb2),
                    w')))"

text \<open>
  The states a breaker is in between calls: \<open>HALF_OPEN\<close> only exists inside a call, and an
  open breaker has reached its threshold.
\<close>

definition breaker_ok :: "CircuitBreaker \<Rightarrow> bool" where
  "breaker_ok cb =
     (breaker_state cb \<noteq> HALF_OPEN \<and>
      (breaker_state cb = OPEN \<longrightarrow> failure_threshold cb \<le> failure_count cb))"

text \<open>A sequence of calls on one breaker: each entry gives the two readings and the delegate.\<close>

fun call_all ::
  "CircuitBreaker \<Rightarrow> 'w \<Rightarrow> (real \<times> real \<times> ('w \<Rightarrow> (py_exception + 'a) \<times> 'w)) list
     \<Rightarrow> (py_exception + 'a) list \<times> CircuitBreaker \<times> 'w" where
  "call_all cb w [] = ([], cb, w)"
| "call_all cb w ((t_enter, t_fail, func) # cs) =
     (case call cb t_enter t_fail func w of
        (r, cb', w') \<Rightarrow> (case call_all cb' w' cs of (rs, cb'', w'') \<Rightarrow> (r # rs, cb'', w'')))"

text \<open>Delegates for the scenarios: the world counts the invocations.\<close>

definition failing :: "nat \<Rightarrow> (py_exception + int) \<times> nat" where
  "failing w = (Inl (Exception ''boom''), Suc w)"

definition succeeding :: "nat \<Rightarrow> (py_exception + int) \<times> nat" where
  "succeeding w = (Inr 7, Suc w)"

section \<open>animation\_controller.py\<close>

subsection \<open>Frames and effects\<close>

datatype AnimationState = STOPPED | RUNNING | PAUSED | ERROR

datatype EffectPriority = CRITICAL | HIGH | MEDIUM | LOW

fun priority_value :: "EffectPriority \<Rightarrow> int" where
  "priority_value CRITICAL = 1"
| "priority_value HIGH = 2"
| "priority_value MEDIUM = 3"
| "priority_value LOW = 4"

type_synonym rgb = "int \<times> int \<times> int"

record AnimationFrame =
  timestamp :: real
  pixels :: "rgb list"
  indices :: "int list"
  brightness :: real
  frame_effect_id :: string

text \<open>
  The subclasses of \<^verbatim>\<open>BaseEffect\<close> are the constructors of a datatype that holds the
  fields each adds; the fields of the base class, and \<^verbatim>\<open>pixel_indices\<close>, which every
  subclass has, are a record.
\<close>

datatype variant =
    BlinkEffect rgb real real real
      \<comment> \<open>color, duty\_cycle, blink\_rate, period\<close>
  | WeatherEffect string real real
      \<comment> \<open>effect\_type, intensity, phase\<close>
  | FadeEffect rgb rgb real
      \<comment> \<open>start\_color, end\_color, fade\_duration\<close>
  | HeatMapEffect "real list" int int real
      \<comment> \<open>data, max\_iterations, current\_iteration, fade\_speed\<close>

record Effect =
  effect_id :: string
  priority :: EffectPriority
  state :: AnimationState
  start_time :: real
  duration :: real
  timeout :: real
  pixel_indices :: "int list"
  variant :: variant

definition BaseEffect_init :: "string \<Rightarrow> EffectPriority \<Rightarrow> int list \<Rightarrow> variant \<Rightarrow> Effect" where
  "BaseEffect_init eid prio idxs v =
     \<lparr>effect_id = eid, priority = prio, state = STOPPED, start_time = 0, duration = 0,
      timeout = 30, pixel_indices = idxs, variant = v\<rparr>"

definition create_blink_effect ::
  "string \<Rightarrow> rgb \<Rightarrow> real \<Rightarrow> real \<Rightarrow> int list \<Rightarrow> py_exception + Effect" where
  "create_blink_effect eid color duty_cycle blink_rate idxs =
     (if blink_rate = 0 then Inl ZeroDivisionError
      else Inr (BaseEffect_init eid HIGH idxs
                  (BlinkEffect color duty_cycle blink_rate (1 / blink_rate))))"

definition create_weather_effect :: "string \<Rightarrow> string \<Rightarrow> real \<Rightarrow> int list \<Rightarrow> Effect" where
  "create_weather_effect eid effect_type intensity idxs =
     BaseEffect_init eid CRITICAL idxs (WeatherEffect effect_type intensity 0)"

definition create_fade_effect :: "string \<Rightarrow> rgb \<Rightarrow> rgb \<Rightarrow> real \<Rightarrow> int list \<Rightarrow> Effect" where
  "create_fade_effect eid start_color end_color fade_duration idxs =
     BaseEffect_init eid MEDIUM idxs (FadeEffect start_color end_color fade_duration)"

text \<open>\<^verbatim>\<open>pixel_indices or list(range(len(data)))\<close>: an empty list counts as absent.\<close>

definition create_heat_map_effect :: "string \<Rightarrow> real list \<Rightarrow> int \<Rightarrow> int list \<Rightarrow> Effect" where
  "create_heat_map_effect eid data max_iterations idxs =
     BaseEffect_init eid LOW (if idxs = [] then map int [0..<length data] else idxs)
       (HeatMapEffect data max_iterations 0 0.02)"

definition BaseEffect_start :: "Effect \<Rightarrow> real \<Rightarrow> Effect" where
  "BaseEffect_start e current_time = e\<lparr>state := RUNNING, start_time := current_time\<rparr>"

definition BaseEffect_stop :: "Effect \<Rightarrow> Effect" where
  "BaseEffect_stop e = e\<lparr>state := STOPPED\<rparr>"

definition BaseEffect_pause :: "Effect \<Rightarrow> Effect" where
  "BaseEffect_pause e = e\<lparr>state := PAUSED\<rparr>"

definition BaseEffect_resume :: "Effect \<Rightarrow> Effect" where
  "BaseEffect_resume e = e\<lparr>state := RUNNING\<rparr>"

definition is_timed_out :: "Effect \<Rightarrow> real \<Rightarrow> bool" where
  "is_timed_out e current_time = (current_time - start_time e > timeout e)"

subsection \<open>The update of each effect\<close>

text \<open>
  An update returns the frame, nothing, or the exception it raises, together with the
  effect (the weather effect stores its phase, the heat map counts its iterations).
\<close>

definition BlinkEffect_update ::
  "Effect \<Rightarrow> rgb \<Rightarrow> real \<Rightarrow> real \<Rightarrow> real \<Rightarrow> (py_exception + AnimationFrame option) \<times> Effect" where
  "BlinkEffect_update e color duty_cycle period current_time =
     (if state e \<noteq> RUNNING then (Inr None, e)
      else if period = 0 then (Inl ZeroDivisionError, e)
      else
        let elapsed = current_time - start_time e;
            cycle_position = py_fmod elapsed period / period;
            is_on = (cycle_position < duty_cycle);
            px = (if is_on then map (\<lambda>_. color) (pixel_indices e)
                  else map (\<lambda>_. (0, 0, 0)) (pixel_indices e))
        in (Inr (Some \<lparr>timestamp = current_time, pixels = px, indices = pixel_indices e,
                        brightness = 1, frame_effect_id = effect_id e\<rparr>), e))"

definition rain_pixel :: "real \<Rightarrow> int \<Rightarrow> real \<Rightarrow> rgb" where
  "rain_pixel self_intensity index phase =
     (let drop_phase = py_fmod (phase + real_of_int index * 0.1) (2 * 3.14159);
          intensity = max 0 (0.5 + 0.5 * (1 - \<bar>drop_phase - 3.14159\<bar> / 3.14159))
      in (0, 0, py_int (255 * intensity * self_intensity)))"

definition snow_pixel :: "real \<Rightarrow> int \<Rightarrow> real \<Rightarrow> rgb" where
  "snow_pixel self_intensity index phase =
     (let flake_phase = py_fmod (phase + real_of_int index * 0.2) (2 * 3.14159);
          intensity = max 0 (0.3 + 0.7 * (1 - \<bar>flake_phase - 3.14159\<bar> / 3.14159));
          v = py_int (255 * intensity * self_intensity)
      in (v, v, v))"

definition lightning_pixel :: "int \<Rightarrow> real \<Rightarrow> rgb" where
  "lightning_pixel index phase =
     (if py_fmod (phase + real_of_int index) 10 < 0.1 then (255, 255, 255) else (0, 0, 0))"

definition WeatherEffect_update ::
  "Effect \<Rightarrow> string \<Rightarrow> real \<Rightarrow> real \<Rightarrow> (py_exception + AnimationFrame option) \<times> Effect" where
  "WeatherEffect_update e effect_type intensity current_time =
     (if state e \<noteq> RUNNING then (Inr None, e)
      else
        let elapsed = current_time - start_time e;
            phase = elapsed * 2;
            px = map (\<lambda>i. if effect_type = ''rain'' then rain_pixel intensity i phase
                           else if effect_type = ''snow'' then snow_pixel intensity i phase
                           else if effect_type = ''lightning'' then lightning_pixel i phase
                           else (0, 0, 0))
                     (pixel_indices e)
        in (Inr (Some \<lparr>timestamp = current_time, pixels = px, indices = pixel_indices e,
                        brightness = intensity, frame_effect_id = effect_id e\<rparr>),
            e\<lparr>variant := WeatherEffect effect_type intensity phase\<rparr>))"

definition ease_in_out :: "real \<Rightarrow> real" where
  "ease_in_out t = t * t * (3 - 2 * t)"

definition fade_color :: "rgb \<Rightarrow> rgb \<Rightarrow> real \<Rightarrow> rgb" where
  "fade_color start_color end_color eased_progress =
     (case start_color of (s0, s1, s2) \<Rightarrow> case end_color of (e0, e1, e2) \<Rightarrow>
        (py_int (real_of_int s0 + real_of_int (e0 - s0) * eased_progress),
         py_int (real_of_int s1 + real_of_int (e1 - s1) * eased_progress),
         py_int (real_of_int s2 + real_of_int (e2 - s2) * eased_progress)))"

definition FadeEffect_update ::
  "Effect \<Rightarrow> rgb \<Rightarrow> rgb \<Rightarrow> real \<Rightarrow> real \<Rightarrow> (py_exception + AnimationFrame option) \<times> Effect" where
  "FadeEffect_update e start_color end_color fade_duration current_time =
     (if state e \<noteq> RUNNING then (Inr None, e)
      else if fade_duration = 0 then (Inl ZeroDivisionError, e)
      else
        let elapsed = current_time - start_time e;
            progress = min 1 (elapsed / fade_duration);
            eased_progress = ease_in_out progress;
            px = map (\<lambda>_. fade_color start_color end_color eased_progress) (pixel_indices e)
        in (Inr (Some \<lparr>timestamp = current_time, pixels = px, indices = pixel_indices e,
                        brightness = 1, frame_effect_id = effect_id e\<rparr>), e))"

definition heat_color :: "real \<Rightarrow> rgb" where
  "heat_color v =
     (if v < 0.25 then (0, py_int (255 * v * 4), 255)
      else if v < 0.5 then (0, 255, py_int (255 * (1 - (v - 0.25) * 4)))
      else if v < 0.75 then (py_int (255 * (v - 0.5) * 4), 255, 0)
      else (255, py_int (255 * (1 - (v - 0.75) * 4)), 0))"

definition HeatMapEffect_update ::
  "Effect \<Rightarrow> real list \<Rightarrow> int \<Rightarrow> int \<Rightarrow> real \<Rightarrow> real
     \<Rightarrow> (py_exception + AnimationFrame option) \<times> Effect" where
  "HeatMapEffect_update e data max_iterations current_iteration fade_speed current_time =
     (if state e \<noteq> RUNNING then (Inr None, e)
      else if current_iteration \<ge> max_iterations then (Inr None, e)
      else
        (Inr (Some \<lparr>timestamp = current_time, pixels = map heat_color data,
                     indices = pixel_indices e, brightness = 1,
                     frame_effect_id = effect_id e\<rparr>),
         e\<lparr>variant := HeatMapEffect data max_iterations (current_iteration + 1) fade_speed\<rparr>))"

text \<open>The dispatch of \<^verbatim>\<open>effect.update(current_time, clock)\<close> and of \<^verbatim>\<open>effect.is_complete\<close>.\<close>

definition update_effect :: "Effect \<Rightarrow> real \<Rightarrow> (py_exception + AnimationFrame option) \<times> Effect" where
  "update_effect e current_time =
     (case variant e of
        BlinkEffect color duty_cycle blink_rate period \<Rightarrow>
          BlinkEffect_update e color duty_cycle period current_time
      | WeatherEffect effect_type intensity phase \<Rightarrow>
          WeatherEffect_update e effect_type intensity current_time
      | FadeEffect start_color end_color fade_duration \<Rightarrow>
          FadeEffect_update e start_color end_color fade_duration current_time
      | HeatMapEffect data max_iterations current_iteration fade_speed \<Rightarrow>
          HeatMapEffect_update e data max_iterations current_iteration fade_speed current_time)"

definition is_complete :: "Effect \<Rightarrow> real \<Rightarrow> bool" where
  "is_complete e current_time =
     (case variant e of
        BlinkEffect color duty_cycle blink_rate period \<Rightarrow> is_timed_out e current_time
      | WeatherEffect effect_type intensity phase \<Rightarrow> is_timed_out e current_time
      | FadeEffect start_color end_color fade_duration \<Rightarrow>
          current_time - start_time e \<ge> fade_duration
      | HeatMapEffect data max_iterations current_iteration fade_speed \<Rightarrow>
          current_iteration \<ge> max_iterations)"

subsection \<open>AnimationController\<close>

text \<open>
  The LED driver is a collaborator: of \<^verbatim>\<open>LedStrip\<close> the controller reads \<^verbatim>\<open>number\<close> and
  calls \<^verbatim>\<open>set_pixel_color\<close>, \<^verbatim>\<open>show_pixels\<close> and \<^verbatim>\<open>clear\<close>, none of which raises. The
  model keeps the calls it receives, in order.
\<close>

datatype led_call = SetPixelColor int rgb | ShowPixels | Clear

record LedStrip =
  number :: int
  led_calls :: "led_call list"

text \<open>
  \<^verbatim>\<open>effects\<close> is a dict: an association list in insertion order, one entry per key.
\<close>

record AnimationController =
  led_controller :: "LedStrip option"
  target_fps :: int
  frame_limiter :: FrameRateLimiter
  shared_clock :: SharedClock
  effects :: "(string \<times> Effect) list"
  current_frame :: "AnimationFrame option"
  controller_state :: AnimationState
  frame_count :: int
  last_fps_time :: real
  current_fps :: int

definition AnimationController_init ::
  "LedStrip option \<Rightarrow> int \<Rightarrow> real \<Rightarrow> real \<Rightarrow> py_exception + AnimationController" where
  "AnimationController_init led fps t_clock t_fps =
     (case FrameRateLimiter_init fps of
        Inl e \<Rightarrow> Inl e
      | Inr fl \<Rightarrow>
          Inr \<lparr>led_controller = led, target_fps = fps, frame_limiter = fl,
               shared_clock = SharedClock_init t_clock, effects = [], current_frame = None,
               controller_state = STOPPED, frame_count = 0, last_fps_time = t_fps,
               current_fps = 0\<rparr>)"

definition add_effect :: "AnimationController \<Rightarrow> Effect \<Rightarrow> bool \<times> AnimationController" where
  "add_effect ctl effect =
     (if effect_id effect \<in> set (map fst (effects ctl)) then (False, ctl)
      else (True, ctl\<lparr>effects := effects ctl @ [(effect_id effect, effect)]\<rparr>))"

text \<open>
  \<^verbatim>\<open>remove_effect\<close> stops the effect and deletes the entry; the stopped object is no longer
  part of the controller.
\<close>

definition remove_effect :: "AnimationController \<Rightarrow> string \<Rightarrow> bool \<times> AnimationController" where
  "remove_effect ctl eid =
     (if eid \<notin> set (map fst (effects ctl)) then (False, ctl)
      else (True, ctl\<lparr>effects := filter (\<lambda>(k, e). k \<noteq> eid) (effects ctl)\<rparr>))"

definition start_effect ::
  "AnimationController \<Rightarrow> string \<Rightarrow> real \<Rightarrow> bool \<times> AnimationController" where
  "start_effect ctl eid wall =
     (if eid \<notin> set (map fst (effects ctl)) then (False, ctl)
      else (True,
            ctl\<lparr>effects :=
                  map (\<lambda>(k, e). if k = eid
                                 then (k, BaseEffect_start e (get_time (shared_clock ctl) wall))
                                 else (k, e))
                      (effects ctl)\<rparr>))"

definition stop_effect :: "AnimationController \<Rightarrow> string \<Rightarrow> bool \<times> AnimationController" where
  "stop_effect ctl eid =
     (if eid \<notin> set (map fst (effects ctl)) then (False, ctl)
      else (True,
            ctl\<lparr>effects := map (\<lambda>(k, e). if k = eid then (k, BaseEffect_stop e) else (k, e))
                                (effects ctl)\<rparr>))"

definition start_animation :: "AnimationController \<Rightarrow> real \<Rightarrow> AnimationController" where
  "start_animation ctl wall =
     ctl\<lparr>controller_state := RUNNING, shared_clock := SharedClock_resume (shared_clock ctl) wall\<rparr>"

text \<open>The body of the loop of \<^verbatim>\<open>update\<close> for one effect: its new value and its frame, if any.\<close>

definition tick_effect :: "real \<Rightarrow> Effect \<Rightarrow> Effect \<times> AnimationFrame list" where
  "tick_effect current_time effect =
     (let (e1, fs) =
            (if state effect = RUNNING
             then (case update_effect effect current_time of
                     (Inr frame, e') \<Rightarrow> (e', (case frame of None \<Rightarrow> [] | Some f \<Rightarrow> [f]))
                   | (Inl ex, e') \<Rightarrow> (e'\<lparr>state := ERROR\<rparr>, []))
             else (effect, []))
      in ((if is_complete e1 current_time then BaseEffect_stop e1 else e1), fs))"

fun update_effects ::
  "real \<Rightarrow> (string \<times> Effect) list \<Rightarrow> (string \<times> Effect) list \<times> AnimationFrame list" where
  "update_effects current_time [] = ([], [])"
| "update_effects current_time ((k, effect) # rest) =
     (case tick_effect current_time effect of
        (e2, fs) \<Rightarrow>
          (case update_effects current_time rest of
             (rest', active) \<Rightarrow> ((k, e2) # rest', fs @ active)))"

subsection \<open>The compositor\<close>

definition blend_channel :: "int \<Rightarrow> int \<Rightarrow> int" where
  "blend_channel c v = (let alpha = 0.5 in py_int (real_of_int c * (1 - alpha) + real_of_int v * alpha))"

definition blend :: "rgb \<Rightarrow> rgb \<Rightarrow> rgb" where
  "blend cur pixel =
     (case cur of (cr, cg, cb) \<Rightarrow> case pixel of (r, g, b) \<Rightarrow>
        (blend_channel cr r, blend_channel cg g, blend_channel cb b))"

text \<open>
  \<^verbatim>\<open>full_pixels[pixel_index]\<close> is read and written for every \<open>pixel_index < len(full_pixels)\<close>:
  a negative index counts from the end of the buffer, and one below \<open>-len(full_pixels)\<close>
  raises IndexError.
\<close>

definition blend_at :: "rgb list \<Rightarrow> int \<Rightarrow> rgb \<Rightarrow> py_exception + rgb list" where
  "blend_at full_pixels pixel_index pixel =
     (let n = int (length full_pixels);
          j = (if pixel_index < 0 then n + pixel_index else pixel_index)
      in if 0 \<le> j \<and> j < n
         then Inr (full_pixels[nat j := blend (full_pixels ! nat j) pixel])
         else Inl IndexError)"

text \<open>
  \<^verbatim>\<open>for i, pixel in enumerate(frame.pixels)\<close>: \<open>i\<close> is the position of the first pixel left.
\<close>

fun apply_pixels :: "int list \<Rightarrow> nat \<Rightarrow> rgb list \<Rightarrow> rgb list \<Rightarrow> py_exception + rgb list" where
  "apply_pixels idxs i [] full_pixels = Inr full_pixels"
| "apply_pixels idxs i (pixel # ps) full_pixels =
     (if i < length idxs
      then (let pixel_index = idxs ! i
            in if pixel_index < int (length full_pixels)
               then (case blend_at full_pixels pixel_index pixel of
                       Inl e \<Rightarrow> Inl e
                     | Inr full_pixels' \<Rightarrow> apply_pixels idxs (Suc i) ps full_pixels')
               else apply_pixels idxs (Suc i) ps full_pixels)
      else apply_pixels idxs (Suc i) ps full_pixels)"

fun apply_frames :: "AnimationFrame list \<Rightarrow> rgb list \<Rightarrow> py_exception + rgb list" where
  "apply_frames [] full_pixels = Inr full_pixels"
| "apply_frames (frame # frames) full_pixels =
     (case apply_pixels (indices frame) 0 (pixels frame) full_pixels of
        Inl e \<Rightarrow> Inl e
      | Inr full_pixels' \<Rightarrow> apply_frames frames full_pixels')"

text \<open>
  The sort key \<^verbatim>\<open>self.effects[f.effect_id].priority.value\<close>; the lookup raises KeyError for
  an id that is not in the table, which \<open>combine_effects\<close> tests before it sorts.
\<close>

definition priority_key :: "(string \<times> Effect) list \<Rightarrow> AnimationFrame \<Rightarrow> int" where
  "priority_key effs f =
     (case map_of effs (frame_effect_id f) of
        Some e \<Rightarrow> priority_value (priority e)
      | None \<Rightarrow> 0)"

text \<open>
  The buffer without an LED controller: \<^verbatim>\<open>max(max(frame.indices) for frame in frames)\<close>
  raises ValueError on a frame without indices.
\<close>

fun max_index :: "AnimationFrame list \<Rightarrow> py_exception + int" where
  "max_index [] = Inl ValueError"
| "max_index (frame # frames) =
     (case indices frame of
        [] \<Rightarrow> Inl ValueError
      | i # is \<Rightarrow>
          (if frames = [] then Inr (fold max is i)
           else (case max_index frames of
                   Inl e \<Rightarrow> Inl e
                 | Inr m \<Rightarrow> Inr (max (fold max is i) m))))"

definition combine_effects ::
  "AnimationController \<Rightarrow> AnimationFrame list \<Rightarrow> py_exception + AnimationFrame option" where
  "combine_effects ctl frames =
     (if frames = [] then Inr None
      else
        (case find (\<lambda>f. map_of (effects ctl) (frame_effect_id f) = None) frames of
           Some f \<Rightarrow> Inl (KeyError (frame_effect_id f))
         | None \<Rightarrow>
             (case sort_key (priority_key (effects ctl)) frames of
                [] \<Rightarrow> Inr None
              | combined # others \<Rightarrow>
                  (case (case led_controller ctl of
                           Some led \<Rightarrow> Inr (nat (number led))
                         | None \<Rightarrow> (case max_index (combined # others) of
                                      Inl e \<Rightarrow> Inl e
                                    | Inr m \<Rightarrow> Inr (nat (m + 1)))) of
                     Inl e \<Rightarrow> Inl e
                   | Inr n \<Rightarrow>
                       (case apply_frames (combined # others) (replicate n (0, 0, 0)) of
                          Inl e \<Rightarrow> Inl e
                        | Inr full_pixels \<Rightarrow>
                            Inr (Some \<lparr>timestamp = timestamp combined, pixels = full_pixels,
                                       indices = map int [0..<n],
                                       brightness = brightness combined,
                                       frame_effect_id = ''combined''\<rparr>))))))"

definition render_frame :: "AnimationController \<Rightarrow> AnimationFrame option \<Rightarrow> AnimationController" where
  "render_frame ctl frame_opt =
     (case frame_opt of
        None \<Rightarrow> ctl
      | Some frame \<Rightarrow>
          (case led_controller ctl of
             None \<Rightarrow> ctl
           | Some led \<Rightarrow>
               (let frame' =
                      (if brightness frame \<noteq> 1
                       then frame\<lparr>pixels :=
                                    map (\<lambda>(r, g, b).
                                           (py_int (real_of_int r * brightness frame),
                                            py_int (real_of_int g * brightness frame),
                                            py_int (real_of_int b * brightness frame)))
                                        (pixels frame)\<rparr>
                       else frame);
                    calls = map (\<lambda>(i, c). SetPixelColor i c) (zip (indices frame') (pixels frame'))
                              @ [ShowPixels]
                in ctl\<lparr>led_controller := Some (led\<lparr>led_calls := led_calls led @ calls\<rparr>),
                       current_frame := Some frame'\<rparr>)))"

definition update_performance_metrics :: "AnimationController \<Rightarrow> real \<Rightarrow> AnimationController" where
  "update_performance_metrics ctl current_time =
     (let ctl1 = ctl\<lparr>frame_count := frame_count ctl + 1\<rparr>
      in if current_time - last_fps_time ctl1 \<ge> 1
         then ctl1\<lparr>current_fps := frame_count ctl1, frame_count := 0,
                   last_fps_time := current_time\<rparr>
         else ctl1)"

text \<open>
  \<open>update ctl t_enter t_exit t_clock t_perf\<close>: the readings of the clock are those of the
  frame limiter (two), of the shared clock and of the performance metrics. An exception
  of the limiter or of the compositor leaves \<^verbatim>\<open>update\<close> with the controller as it is then.
\<close>

definition update ::
  "AnimationController \<Rightarrow> real \<Rightarrow> real \<Rightarrow> real \<Rightarrow> real
     \<Rightarrow> (py_exception + bool) \<times> AnimationController" where
  "update ctl t_enter t_exit t_clock t_perf =
     (if controller_state ctl \<noteq> RUNNING then (Inr False, ctl)
      else
        (case wait_for_next_frame (frame_limiter ctl) t_enter t_exit of
           (Inl e, fl') \<Rightarrow> (Inl e, ctl\<lparr>frame_limiter := fl'\<rparr>)
         | (Inr proceed, fl') \<Rightarrow>
             (if \<not> proceed then (Inr False, ctl\<lparr>frame_limiter := fl'\<rparr>)
              else
                (let ctl1 = ctl\<lparr>frame_limiter := fl'\<rparr>;
                     current_time = get_time (shared_clock ctl1) t_clock
                 in case update_effects current_time (effects ctl1) of
                      (effs', active_effects) \<Rightarrow>
                        (let ctl2 = ctl1\<lparr>effects := effs'\<rparr>
                         in if active_effects \<noteq> []
                            then (case combine_effects ctl2 active_effects of
                                    Inl e \<Rightarrow> (Inl e, ctl2)
                                  | Inr combined_frame \<Rightarrow>
                                      (Inr True,
                                       update_performance_metrics
                                         (render_frame ctl2 combined_frame) t_perf))
                            else (Inr True, update_performance_metrics ctl2 t_perf))))))"

subsection \<open>The life of one effect\<close>

text \<open>
  What can be done to an effect object: the four lifecycle calls and \<^verbatim>\<open>update\<close>.
  \<open>run_effect_ops\<close> applies a sequence of them and counts the updates that returned a frame.
\<close>

datatype effect_op = OpStart real | OpStop | OpPause | OpResume | OpUpdate real

fun apply_effect_op :: "Effect \<Rightarrow> effect_op \<Rightarrow> Effect \<times> nat" where
  "apply_effect_op e (OpStart t) = (BaseEffect_start e t, 0)"
| "apply_effect_op e OpStop = (BaseEffect_stop e, 0)"
| "apply_effect_op e OpPause = (BaseEffect_pause e, 0)"
| "apply_effect_op e OpResume = (BaseEffect_resume e, 0)"
| "apply_effect_op e (OpUpdate t) =
     (case update_effect e t of
        (Inr (Some frame), e') \<Rightarrow> (e', 1)
      | (Inr None, e') \<Rightarrow> (e', 0)
      | (Inl ex, e') \<Rightarrow> (e', 0))"

fun run_effect_ops :: "Effect \<Rightarrow> effect_op list \<Rightarrow> Effect \<times> nat" where
  "run_effect_ops e [] = (e, 0)"
| "run_effect_ops e (op # ops) =
     (case apply_effect_op e op of
        (e', n) \<Rightarrow> (case run_effect_ops e' ops of (e'', m) \<Rightarrow> (e'', n + m)))"

subsection \<open>Auxiliary notions for the compositor\<close>

text \<open>
  The entries of a frame that the compositor visits are the pairs of \<open>zip indices pixels\<close>;
  \<open>apply_entries\<close> is the inner loop on them.
\<close>

fun apply_entries :: "(int \<times> rgb) list \<Rightarrow> rgb list \<Rightarrow> py_exception + rgb list" where
  "apply_entries [] full_pixels = Inr full_pixels"
| "apply_entries ((pixel_index, pixel) # es) full_pixels =
     (if pixel_index < int (length full_pixels)
      then (case blend_at full_pixels pixel_index pixel of
              Inl e \<Rightarrow> Inl e
            | Inr full_pixels' \<Rightarrow> apply_entries es full_pixels')
      else apply_entries es full_pixels)"

text \<open>
  A frame without the entries whose index is \<open>n\<close> or more and without the pixels that
  have no index.
\<close>

definition clip_frame :: "nat \<Rightarrow> AnimationFrame \<Rightarrow> AnimationFrame" where
  "clip_frame n f =
     f\<lparr>indices := map fst (filter (\<lambda>(i, p). i < int n) (zip (indices f) (pixels f))),
       pixels := map snd (filter (\<lambda>(i, p). i < int n) (zip (indices f) (pixels f)))\<rparr>"

text \<open>
  Following the words of the specification, for comparison with \<open>combine_effects\<close>: the
  frames composited so that those of higher priority (lower value) are written last.
\<close>

definition spec_composite_higher_priority_last ::
  "(string \<times> Effect) list \<Rightarrow> AnimationFrame list \<Rightarrow> rgb list \<Rightarrow> py_exception + rgb list" where
  "spec_composite_higher_priority_last effs frames full_pixels =
     apply_frames (rev (sort_key (priority_key effs) frames)) full_pixels"

text \<open>
  Following the words of the specification, for comparison with \<open>FadeEffect_update\<close>: the
  progress clamped to \<open>[0, 1]\<close>, then the smoothstep weight.
\<close>

definition spec_fade_pixel :: "rgb \<Rightarrow> rgb \<Rightarrow> real \<Rightarrow> real \<Rightarrow> rgb" where
  "spec_fade_pixel start_color end_color fade_duration elapsed =
     (let t = max 0 (min 1 (elapsed / fade_duration))
      in fade_color start_color end_color (3 * t\<^sup>2 - 2 * t ^ 3))"

subsection \<open>Objects for the scenarios\<close>

text \<open>
  A controller created at wall-clock 0 on a strip of \<open>n\<close> pixels at 30 frames per second,
  after \<^verbatim>\<open>start_animation\<close>, with the given effect table.
\<close>

definition running_controller :: "int \<Rightarrow> (string \<times> Effect) list \<Rightarrow> AnimationController" where
  "running_controller n effs =
     \<lparr>led_controller = Some \<lparr>number = n, led_calls = []\<rparr>, target_fps = 30,
      frame_limiter = \<lparr>limiter_target_fps = 30, frame_time = 1 / 30, last_frame_time = 0,
                        frame_skip_count = 0, max_frame_time = 0.1\<rparr>,
      shared_clock = \<lparr>clock_start_time = 0, paused = False, pause_offset = 0\<rparr>,
      effects = effs, current_frame = None, controller_state = RUNNING, frame_count = 0,
      last_fps_time = 0, current_fps = 0\<rparr>"

text \<open>A frame of one pixel.\<close>

definition pixel_frame :: "string \<Rightarrow> int \<Rightarrow> rgb \<Rightarrow> AnimationFrame" where
  "pixel_frame eid i c =
     \<lparr>timestamp = 0, pixels = [c], indices = [i], brightness = 1, frame_effect_id = eid\<rparr>"

section \<open>Properties of the reliability manager\<close>

lemma get_time_frozen_while_paused:
  "paused c \<Longrightarrow> get_time c wall1 = get_time c wall2"
  by (simp add: get_time_def)

lemma SharedClock_pause_idempotent:
  "SharedClock_pause (SharedClock_pause c wall1) wall2 = SharedClock_pause c wall1"
  by (simp add: SharedClock_pause_def)

lemma SharedClock_resume_idempotent:
  "SharedClock_resume (SharedClock_resume c wall1) wall2 = SharedClock_resume c wall1"
  by (simp add: SharedClock_resume_def)

lemma get_time_after_pause_resume:
  "\<not> paused c \<Longrightarrow>
   get_time (SharedClock_resume (SharedClock_pause c wall1) wall2) wall3
     = get_time c wall1 + (wall3 - wall2)"
  by (simp add: get_time_def SharedClock_pause_def SharedClock_resume_def)

text \<open>
  C1. The clock is created at wall-clock 1000, read at 1010, paused at 1010, read at 1012,
  resumed at 1015 and read at 1015. The reads are 10, then 1010 while paused, then 10
  again: the paused read is not the elapsed logical time, and the time jumps forward and
  then runs backward across the pause/resume cycle.
\<close>

theorem SharedClock_paused_read_jumps:
  "get_time (SharedClock_init 1000) 1010 = 10 \<and>
   get_time (SharedClock_pause (SharedClock_init 1000) 1010) 1012 = 1010 \<and>
   get_time (SharedClock_resume (SharedClock_pause (SharedClock_init 1000) 1010) 1015) 1015 = 10"
  by (simp add: get_time_def SharedClock_init_def SharedClock_pause_def SharedClock_resume_def)

lemma wait_for_next_frame_resets:
  assumes "frame_skip_count fl \<le> 9"
  shows "wait_for_next_frame fl t_enter t_exit
           = (Inr True, fl\<lparr>frame_skip_count := 0, last_frame_time := t_exit\<rparr>)"
  using assms by (simp add: wait_for_next_frame_def Let_def)

lemma frame_loop_all_True:
  "frame_skip_count fl \<le> 9 \<Longrightarrow> fst (frame_loop fl ts) = map (\<lambda>_. Inr True) ts"
proof (induction ts arbitrary: fl)
  case Nil
  then show ?case by simp
next
  case (Cons p ts)
  obtain a b where p: "p = (a, b)" by (cases p)
  let ?fl' = "fl\<lparr>frame_skip_count := 0, last_frame_time := b\<rparr>"
  have step: "wait_for_next_frame fl a b = (Inr True, ?fl')"
    using Cons.prems by (rule wait_for_next_frame_resets)
  have "frame_skip_count ?fl' \<le> 9" by simp
  then have "fst (frame_loop ?fl' ts) = map (\<lambda>_. Inr True) ts" by (rule Cons.IH)
  then show ?case by (cases "frame_loop ?fl' ts") (simp add: p step)
qed

text \<open>
  C2. Whatever the clock readings, a limiter whose stall counter is at most 9 (0 when it
  is created) never raises: every call of the render loop returns True, also when every
  interval exceeds the hang threshold. The counter is set back to 0 on both branches of
  the rate-limiting test, so stalls never accumulate.
\<close>

theorem wait_for_next_frame_never_raises:
  "frame_skip_count fl \<le> 9 \<Longrightarrow>
     fst (frame_loop fl ts) = map (\<lambda>_. Inr True) ts \<and>
     fst (wait_for_next_frame fl t_enter t_exit) = Inr True \<and>
     frame_skip_count (snd (wait_for_next_frame fl t_enter t_exit)) = 0"
  by (simp add: frame_loop_all_True wait_for_next_frame_resets)

theorem wait_for_next_frame_never_raises_witness:
  "frame_skip_count \<lparr>limiter_target_fps = 30, frame_time = 1 / 30, last_frame_time = 0,
                      frame_skip_count = 0, max_frame_time = 0.1\<rparr> \<le> 9 \<and>
   fst (frame_loop \<lparr>limiter_target_fps = 30, frame_time = 1 / 30, last_frame_time = 0,
                    frame_skip_count = 0, max_frame_time = 0.1\<rparr>
          [(1, 1), (2, 2), (3, 3), (4, 4), (5, 5), (6, 6), (7, 7), (8, 8), (9, 9), (10, 10),
           (11, 11), (12, 12)])
     = [Inr True, Inr True, Inr True, Inr True, Inr True, Inr True, Inr True, Inr True,
        Inr True, Inr True, Inr True, Inr True]"
  using wait_for_next_frame_never_raises
    [of "\<lparr>limiter_target_fps = 30, frame_time = 1 / 30, last_frame_time = 0,
          frame_skip_count = 0, max_frame_time = 0.1\<rparr>"
        "[(1, 1), (2, 2), (3, 3), (4, 4), (5, 5), (6, 6), (7, 7), (8, 8), (9, 9), (10, 10),
          (11, 11), (12, 12)]" 1 1]
  by simp

subsection \<open>CircuitBreaker\<close>

lemma breaker_ok_init: "breaker_ok (CircuitBreaker_init threshold recovery)"
  by (simp add: breaker_ok_def CircuitBreaker_init_def)

lemma breaker_ok_call:
  assumes "breaker_ok cb"
  shows "breaker_ok (fst (snd (call cb t_enter t_fail func w)))"
proof (cases "func w")
  case (Pair r w')
  show ?thesis
  proof (cases r)
    case (Inl e)
    with Pair assms show ?thesis
      by (cases "breaker_state cb") (simp_all add: call_def breaker_ok_def Let_def)
  next
    case (Inr v)
    with Pair assms show ?thesis
      by (cases "breaker_state cb") (simp_all add: call_def breaker_ok_def Let_def)
  qed
qed

lemma call_closed_success:
  "breaker_state cb = CLOSED \<Longrightarrow> func w = (Inr r, w') \<Longrightarrow>
     call cb t_enter t_fail func w = (Inr r, cb, w')"
  by (simp add: call_def)

lemma call_closed_failure:
  "breaker_state cb = CLOSED \<Longrightarrow> func w = (Inl e, w') \<Longrightarrow>
     call cb t_enter t_fail func w
       = (Inl e,
          cb\<lparr>failure_count := failure_count cb + 1, last_failure_time := t_fail,
             breaker_state := (if failure_threshold cb \<le> failure_count cb + 1
                               then OPEN else CLOSED)\<rparr>,
          w')"
  by (simp add: call_def Let_def)

lemma call_open_rejects:
  "breaker_state cb = OPEN \<Longrightarrow> t_enter - last_failure_time cb \<le> recovery_timeout cb \<Longrightarrow>
     call cb t_enter t_fail func w = (Inl (Exception ''Circuit breaker is OPEN''), cb, w)"
  by (simp add: call_def)

lemma call_trial_success:
  "breaker_state cb = OPEN \<Longrightarrow> recovery_timeout cb < t_enter - last_failure_time cb \<Longrightarrow>
   func w = (Inr r, w') \<Longrightarrow>
     call cb t_enter t_fail func w
       = (Inr r, cb\<lparr>failure_count := 0, breaker_state := CLOSED\<rparr>, w')"
  by (simp add: call_def)

lemma call_trial_failure:
  "breaker_state cb = OPEN \<Longrightarrow> failure_threshold cb \<le> failure_count cb \<Longrightarrow>
   recovery_timeout cb < t_enter - last_failure_time cb \<Longrightarrow> func w = (Inl e, w') \<Longrightarrow>
     call cb t_enter t_fail func w
       = (Inl e,
          cb\<lparr>failure_count := failure_count cb + 1, last_failure_time := t_fail,
             breaker_state := OPEN\<rparr>,
          w')"
  by (simp add: call_def Let_def)

text \<open>
  C3, as the claim states it. With threshold 2 the calls fail, succeed, fail: the claim has
  the success reset the counter, so that the breaker would stay Closed with a count of 1.
  The source leaves the counter alone on a success in Closed: the count is 2 and the
  breaker is Open after two failures that are not consecutive.
\<close>

theorem CircuitBreaker_success_keeps_count:
  "call_all (CircuitBreaker_init 2 60) 0 [(1, 1, failing), (2, 2, succeeding), (3, 3, failing)]
     = ([Inl (Exception ''boom''), Inr 7, Inl (Exception ''boom'')],
        \<lparr>failure_threshold = 2, recovery_timeout = 60, failure_count = 2,
         last_failure_time = 3, breaker_state = OPEN\<rparr>,
        3)"
  by (simp add: CircuitBreaker_init_def call_def failing_def succeeding_def Let_def)

text \<open>
  C3, amended. The failure counter counts the failed calls since the breaker was created
  or last reset, consecutive or not: in Closed a successful call passes through and leaves
  the counter as it is, a failed call adds one, records the time of the failure and opens
  the breaker once the counter reaches the threshold. An open breaker rejects a call
  without invoking the delegate (the world is returned untouched, whatever the delegate)
  as long as the time since the last failure does not exceed the recovery timeout. The
  first call after that is the trial call: it invokes the delegate; its success closes the
  breaker with the counter at zero, its failure leaves the breaker Open with the time of
  the last failure set to that of the trial, so that the next call within the recovery
  timeout of the trial is rejected again.
\<close>

theorem CircuitBreaker_call_cumulative:
  assumes "breaker_ok cb"
  shows
    "(breaker_state cb = CLOSED \<and> func w = (Inr r, w')
        \<longrightarrow> call cb t_enter t_fail func w = (Inr r, cb, w')) \<and>
     (breaker_state cb = CLOSED \<and> func w = (Inl e, w')
        \<longrightarrow> call cb t_enter t_fail func w
             = (Inl e,
                cb\<lparr>failure_count := failure_count cb + 1, last_failure_time := t_fail,
                   breaker_state := (if failure_threshold cb \<le> failure_count cb + 1
                                     then OPEN else CLOSED)\<rparr>,
                w')) \<and>
     (breaker_state cb = OPEN \<and> t_enter - last_failure_time cb \<le> recovery_timeout cb
        \<longrightarrow> call cb t_enter t_fail func w = (Inl (Exception ''Circuit breaker is OPEN''), cb, w)) \<and>
     (breaker_state cb = OPEN \<and> recovery_timeout cb < t_enter - last_failure_time cb
        \<and> func w = (Inr r, w')
        \<longrightarrow> call cb t_enter t_fail func w
             = (Inr r, cb\<lparr>failure_count := 0, breaker_state := CLOSED\<rparr>, w')) \<and>
     (breaker_state cb = OPEN \<and> recovery_timeout cb < t_enter - last_failure_time cb
        \<and> func w = (Inl e, w')
        \<longrightarrow> call cb t_enter t_fail func w
             = (Inl e,
                cb\<lparr>failure_count := failure_count cb + 1, last_failure_time := t_fail,
                   breaker_state := OPEN\<rparr>,
                w')
          \<and> (\<forall>t_next t_fail' func' w''. t_next - t_fail \<le> recovery_timeout cb
                \<longrightarrow> fst (call (fst (snd (call cb t_enter t_fail func w))) t_next t_fail' func' w'')
                    = Inl (Exception ''Circuit breaker is OPEN'')
                  \<and> snd (snd (call (fst (snd (call cb t_enter t_fail func w)))
                                t_next t_fail' func' w'')) = w'')) \<and>
     breaker_ok (fst (snd (call cb t_enter t_fail func w)))"
proof -
  have thr: "breaker_state cb = OPEN \<Longrightarrow> failure_threshold cb \<le> failure_count cb"
    using assms by (simp add: breaker_ok_def)
  have trial: "call cb t_enter t_fail func w
             = (Inl e,
                cb\<lparr>failure_count := failure_count cb + 1, last_failure_time := t_fail,
                   breaker_state := OPEN\<rparr>,
                w')"
    if "breaker_state cb = OPEN" "recovery_timeout cb < t_enter - last_failure_time cb"
       "func w = (Inl e, w')"
    using that thr by (simp add: call_trial_failure)
  have again: "fst (call (fst (snd (call cb t_enter t_fail func w))) t_next t_fail' func' w'')
                 = Inl (Exception ''Circuit breaker is OPEN'')
               \<and> snd (snd (call (fst (snd (call cb t_enter t_fail func w)))
                             t_next t_fail' func' w'')) = w''"
    if "breaker_state cb = OPEN" "recovery_timeout cb < t_enter - last_failure_time cb"
       "func w = (Inl e, w')" "t_next - t_fail \<le> recovery_timeout cb"
    for t_next t_fail' w'' and func' :: "'a \<Rightarrow> (py_exception + 'b) \<times> 'a"
    using that by (simp add: trial call_open_rejects)
  show ?thesis
    using trial again breaker_ok_call [OF assms]
    by (simp add: call_closed_success call_closed_failure call_open_rejects call_trial_success)
qed

theorem CircuitBreaker_call_cumulative_witness:
  "breaker_ok (CircuitBreaker_init 2 60) \<and>
   call (CircuitBreaker_init 2 60) 1 1 succeeding 0 = (Inr 7, CircuitBreaker_init 2 60, 1) \<and>
   call (CircuitBreaker_init 2 60) 1 1 failing 0
     = (Inl (Exception ''boom''),
        \<lparr>failure_threshold = 2, recovery_timeout = 60, failure_count = 1,
         last_failure_time = 1, breaker_state = CLOSED\<rparr>, 1) \<and>
   breaker_ok \<lparr>failure_threshold = 2, recovery_timeout = 60, failure_count = 2,
               last_failure_time = 3, breaker_state = OPEN\<rparr> \<and>
   call \<lparr>failure_threshold = 2, recovery_timeout = 60, failure_count = 2,
         last_failure_time = 3, breaker_state = OPEN\<rparr> 63 63 succeeding 0
     = (Inl (Exception ''Circuit breaker is OPEN''),
        \<lparr>failure_threshold = 2, recovery_timeout = 60, failure_count = 2,
         last_failure_time = 3, breaker_state = OPEN\<rparr>, 0) \<and>
   call \<lparr>failure_threshold = 2, recovery_timeout = 60, failure_count = 2,
         last_failure_time = 3, breaker_state = OPEN\<rparr> 64 64 succeeding 0
     = (Inr 7,
        \<lparr>failure_threshold = 2, recovery_timeout = 60, failure_count = 0,
         last_failure_time = 3, breaker_state = CLOSED\<rparr>, 1) \<and>
   call \<lparr>failure_threshold = 2, recovery_timeout = 60, failure_count = 2,
         last_failure_time = 3, breaker_state = OPEN\<rparr> 64 65 failing 0
     = (Inl (Exception ''boom''),
        \<lparr>failure_threshold = 2, recovery_timeout = 60, failure_count = 3,
         last_failure_time = 65, breaker_state = OPEN\<rparr>, 1)"
proof -
  let ?open = "\<lparr>failure_threshold = 2, recovery_timeout = 60, failure_count = 2,
                last_failure_time = 3, breaker_state = OPEN\<rparr>"
  have ok0: "breaker_ok (CircuitBreaker_init 2 60)"
    by (simp add: breaker_ok_def CircuitBreaker_init_def)
  have ok1: "breaker_ok ?open"
    by (simp add: breaker_ok_def)
  have a: "call (CircuitBreaker_init 2 60) 1 1 succeeding 0
             = (Inr 7, CircuitBreaker_init 2 60, 1)"
    using CircuitBreaker_call_cumulative [OF ok0, where func = succeeding and w = 0 and r = 7
        and w' = 1 and t_enter = 1 and t_fail = 1]
    by (simp add: CircuitBreaker_init_def succeeding_def)
  have b: "call (CircuitBreaker_init 2 60) 1 1 failing 0
             = (Inl (Exception ''boom''),
                \<lparr>failure_threshold = 2, recovery_timeout = 60, failure_count = 1,
                 last_failure_time = 1, breaker_state = CLOSED\<rparr>, 1)"
    using CircuitBreaker_call_cumulative [OF ok0, where func = failing and w = 0
        and e = "Exception ''boom''" and w' = 1 and t_enter = 1 and t_fail = 1]
    by (simp add: CircuitBreaker_init_def failing_def)
  have c: "call ?open 63 63 succeeding 0 = (Inl (Exception ''Circuit breaker is OPEN''), ?open, 0)"
    using CircuitBreaker_call_cumulative [OF ok1, where func = succeeding and w = 0
        and t_enter = 63 and t_fail = 63]
    by simp
  have d: "call ?open 64 64 succeeding 0
             = (Inr 7,
                \<lparr>failure_threshold = 2, recovery_timeout = 60, failure_count = 0,
                 last_failure_time = 3, breaker_state = CLOSED\<rparr>, 1)"
    using CircuitBreaker_call_cumulative [OF ok1, where func = succeeding and w = 0 and r = 7
        and w' = 1 and t_enter = 64 and t_fail = 64]
    by (simp add: succeeding_def)
  have e: "call ?open 64 65 failing 0
             = (Inl (Exception ''boom''),
                \<lparr>failure_threshold = 2, recovery_timeout = 60, failure_count = 3,
                 last_failure_time = 65, breaker_state = OPEN\<rparr>, 1)"
    using CircuitBreaker_call_cumulative [OF ok1, where func = failing and w = 0
        and e = "Exception ''boom''" and w' = 1 and t_enter = 64 and t_fail = 65]
    by (auto simp add: failing_def)
  from ok0 ok1 a b c d e show ?thesis by simp
qed

section \<open>Properties of the effects\<close>

lemma py_int_of_int [simp]: "py_int (real_of_int n) = n"
  by (simp add: py_int_def)

text \<open>
  C6, as the claim states it. A heat map with \<open>max_iterations = 1\<close> is started, updated
  once (its one iteration), stopped and started again: \<^verbatim>\<open>start()\<close> does not reset the
  iteration counter, so \<^verbatim>\<open>is_complete\<close> is true immediately after the second
  \<^verbatim>\<open>start()\<close>.
\<close>

theorem heat_map_restart_complete:
  "is_complete
     (BaseEffect_start
        (BaseEffect_stop
           (snd (update_effect (BaseEffect_start (create_heat_map_effect ''heat'' [0.1] 1 []) 0) 0.5)))
        1) 1"
  by (simp add: is_complete_def BaseEffect_start_def BaseEffect_stop_def update_effect_def
      create_heat_map_effect_def BaseEffect_init_def HeatMapEffect_update_def)

text \<open>
  C6, amended. Immediately after \<^verbatim>\<open>start()\<close>, \<^verbatim>\<open>is_complete\<close> is true exactly when the
  timeout of a Blink or Weather effect is negative, when the duration of a Fade is not
  positive, and when a HeatMap has used up its iterations. So it is false for every Blink
  and Weather effect as constructed (timeout 30), for a constructed Fade exactly when
  \<open>fade_duration > 0\<close>, and for a constructed HeatMap exactly when \<open>max_iterations > 0\<close>.
  For a Fade, \<^verbatim>\<open>is_complete(now)\<close> is true exactly when the elapsed time
  \<open>now - start_time\<close> is at least \<open>fade_duration\<close>.
\<close>

theorem is_complete_after_start:
  "is_complete (BaseEffect_start e t) t
     = (case variant e of
          BlinkEffect color duty_cycle blink_rate period \<Rightarrow> timeout e < 0
        | WeatherEffect effect_type intensity phase \<Rightarrow> timeout e < 0
        | FadeEffect start_color end_color fade_duration \<Rightarrow> fade_duration \<le> 0
        | HeatMapEffect data max_iterations current_iteration fade_speed \<Rightarrow>
            max_iterations \<le> current_iteration) \<and>
   (create_blink_effect eid c dc br idxs = Inr b \<longrightarrow> \<not> is_complete (BaseEffect_start b t) t) \<and>
   \<not> is_complete (BaseEffect_start (create_weather_effect eid ty inten idxs) t) t \<and>
   (\<not> is_complete (BaseEffect_start (create_fade_effect eid sc ec d idxs) t) t) = (0 < d) \<and>
   (\<not> is_complete (BaseEffect_start (create_heat_map_effect eid dat m idxs) t) t) = (0 < m) \<and>
   (variant e = FadeEffect sc ec d \<longrightarrow> is_complete e now = (d \<le> now - start_time e))"
  by (auto simp add: is_complete_def BaseEffect_start_def is_timed_out_def create_blink_effect_def
      create_weather_effect_def create_fade_effect_def create_heat_map_effect_def BaseEffect_init_def
      split: variant.splits if_splits)

theorem is_complete_after_start_witness:
  "create_blink_effect ''b'' (255, 0, 0) 0.5 2 [0]
     = Inr (BaseEffect_init ''b'' HIGH [0] (BlinkEffect (255, 0, 0) 0.5 2 0.5)) \<and>
   \<not> is_complete (BaseEffect_start (BaseEffect_init ''b'' HIGH [0] (BlinkEffect (255, 0, 0) 0.5 2 0.5)) 7) 7 \<and>
   variant (BaseEffect_start (create_fade_effect ''f'' (0, 0, 0) (255, 255, 255) 2 [0]) 10)
     = FadeEffect (0, 0, 0) (255, 255, 255) 2 \<and>
   \<not> is_complete (BaseEffect_start (create_fade_effect ''f'' (0, 0, 0) (255, 255, 255) 2 [0]) 10) 10 \<and>
   \<not> is_complete (BaseEffect_start (create_fade_effect ''f'' (0, 0, 0) (255, 255, 255) 2 [0]) 10) 11.999 \<and>
   is_complete (BaseEffect_start (create_fade_effect ''f'' (0, 0, 0) (255, 255, 255) 2 [0]) 10) 12"
proof -
  let ?b = "BaseEffect_init ''b'' HIGH [0] (BlinkEffect (255, 0, 0) 0.5 2 0.5)"
  let ?f = "BaseEffect_start (create_fade_effect ''f'' (0, 0, 0) (255, 255, 255) 2 [0]) 10"
  have cb: "create_blink_effect ''b'' (255, 0, 0) 0.5 2 [0] = Inr ?b"
    by (simp add: create_blink_effect_def)
  have vf: "variant ?f = FadeEffect (0, 0, 0) (255, 255, 255) 2"
    by (simp add: BaseEffect_start_def create_fade_effect_def BaseEffect_init_def)
  have sf: "start_time ?f = 10"
    by (simp add: BaseEffect_start_def)
  show ?thesis
    using cb vf sf
      is_complete_after_start [where e = ?f and now = "11.999" and sc = "(0,0,0)"
        and ec = "(255,255,255)" and d = 2 and eid = "''b''" and c = "(255, 0, 0)" and dc = "0.5"
        and br = 2 and idxs = "[0]" and b = ?b and t = 7]
      is_complete_after_start [where e = ?f and now = 12 and sc = "(0,0,0)"
        and ec = "(255,255,255)" and d = 2 and eid = "''f''" and idxs = "[0]" and t = 10]
    by simp
qed

subsection \<open>The heat map\<close>

lemma heat_op_step:
  assumes "variant e = HeatMapEffect dat m c fs" "apply_effect_op e op = (e', n)"
  shows "variant e' = HeatMapEffect dat m (c + int n) fs \<and> c + int n \<le> max c m"
proof (cases op)
  case (OpUpdate t)
  with assms show ?thesis
    by (auto simp add: update_effect_def HeatMapEffect_update_def split: if_splits)
qed (use assms in \<open>auto simp add: BaseEffect_start_def BaseEffect_stop_def BaseEffect_pause_def
      BaseEffect_resume_def\<close>)

lemma heat_run:
  "variant e = HeatMapEffect dat m c fs \<Longrightarrow> run_effect_ops e ops = (e', n) \<Longrightarrow>
     variant e' = HeatMapEffect dat m (c + int n) fs \<and> c + int n \<le> max c m"
proof (induction ops arbitrary: e c e' n)
  case Nil
  then show ?case by simp
next
  case (Cons op ops)
  obtain e1 n1 where s1: "apply_effect_op e op = (e1, n1)" by (cases "apply_effect_op e op")
  obtain e2 n2 where s2: "run_effect_ops e1 ops = (e2, n2)" by (cases "run_effect_ops e1 ops")
  from Cons.prems(2) s1 s2 have res: "e' = e2" "n = n1 + n2" by simp_all
  from heat_op_step [OF Cons.prems(1) s1]
  have v1: "variant e1 = HeatMapEffect dat m (c + int n1) fs" and b1: "c + int n1 \<le> max c m"
    by simp_all
  from Cons.IH [OF v1 s2]
  have v2: "variant e2 = HeatMapEffect dat m (c + int n1 + int n2) fs"
    and b2: "c + int n1 + int n2 \<le> max (c + int n1) m" by simp_all
  from v2 b1 b2 res show ?case by (simp add: add.assoc)
qed

lemma run_effect_ops_append:
  "run_effect_ops e (ops @ ops')
     = (case run_effect_ops e ops of
          (e1, n) \<Rightarrow> (case run_effect_ops e1 ops' of (e2, k) \<Rightarrow> (e2, n + k)))"
  by (induction ops arbitrary: e) (auto split: prod.splits)

lemma heat_exhausted:
  assumes "variant e = HeatMapEffect dat m c fs" "m \<le> c"
  shows "is_complete e t" "update_effect e t = (Inr None, e)"
  using assms by (simp_all add: is_complete_def update_effect_def HeatMapEffect_update_def)

text \<open>
  C7. Over the whole life of a heat map, from its construction and through any sequence of
  start, stop, pause, resume and update calls at any times, at most \<open>max_iterations\<close>
  updates return a frame (none when \<open>max_iterations\<close> is not positive). Once that many
  have, whatever is done to the effect afterwards, no update returns a frame any more
  (the count of productive updates stays as it is, and the next update returns nothing)
  and \<^verbatim>\<open>is_complete\<close> is true.
\<close>

theorem HeatMap_bounded_iterations:
  "int (snd (run_effect_ops (create_heat_map_effect eid dat m idxs) ops)) \<le> max 0 m \<and>
   (m \<le> int (snd (run_effect_ops (create_heat_map_effect eid dat m idxs) ops)) \<longrightarrow>
      (\<forall>ops' t.
         snd (run_effect_ops (create_heat_map_effect eid dat m idxs) (ops @ ops'))
           = snd (run_effect_ops (create_heat_map_effect eid dat m idxs) ops) \<and>
         is_complete (fst (run_effect_ops (create_heat_map_effect eid dat m idxs) (ops @ ops'))) t \<and>
         fst (update_effect
                (fst (run_effect_ops (create_heat_map_effect eid dat m idxs) (ops @ ops'))) t)
           = Inr None))"
proof -
  let ?e0 = "create_heat_map_effect eid dat m idxs"
  have v0: "variant ?e0 = HeatMapEffect dat m 0 0.02"
    by (simp add: create_heat_map_effect_def BaseEffect_init_def)
  obtain e1 n where r1: "run_effect_ops ?e0 ops = (e1, n)" by (cases "run_effect_ops ?e0 ops")
  from heat_run [OF v0 r1]
  have v1: "variant e1 = HeatMapEffect dat m (int n) 0.02" and b1: "int n \<le> max 0 m" by simp_all
  have after: "snd (run_effect_ops ?e0 (ops @ ops')) = n
      \<and> is_complete (fst (run_effect_ops ?e0 (ops @ ops'))) t
      \<and> fst (update_effect (fst (run_effect_ops ?e0 (ops @ ops'))) t) = Inr None"
    if full: "m \<le> int n" for ops' t
  proof -
    obtain e2 k where r2: "run_effect_ops e1 ops' = (e2, k)" by (cases "run_effect_ops e1 ops'")
    from heat_run [OF v1 r2]
    have v2: "variant e2 = HeatMapEffect dat m (int n + int k) 0.02"
      and b2: "int n + int k \<le> max (int n) m" by simp_all
    from b2 full have k0: "k = 0" by simp
    have app: "run_effect_ops ?e0 (ops @ ops') = (e2, n + k)"
      by (simp add: run_effect_ops_append r1 r2)
    from v2 k0 have v2': "variant e2 = HeatMapEffect dat m (int n) 0.02" by simp
    show ?thesis
      using heat_exhausted [OF v2' full, of t] by (simp add: app k0)
  qed
  show ?thesis using b1 after by (simp add: r1)
qed

theorem HeatMap_bounded_iterations_witness:
  "snd (run_effect_ops (create_heat_map_effect ''heat'' [0.1, 0.6] 2 [])
          [OpStart 0, OpUpdate 1, OpUpdate 2]) = 2 \<and>
   snd (run_effect_ops (create_heat_map_effect ''heat'' [0.1, 0.6] 2 [])
          ([OpStart 0, OpUpdate 1, OpUpdate 2] @ [OpUpdate 3, OpStop, OpStart 4, OpUpdate 5]))
     = snd (run_effect_ops (create_heat_map_effect ''heat'' [0.1, 0.6] 2 [])
          [OpStart 0, OpUpdate 1, OpUpdate 2]) \<and>
   is_complete (fst (run_effect_ops (create_heat_map_effect ''heat'' [0.1, 0.6] 2 [])
          ([OpStart 0, OpUpdate 1, OpUpdate 2] @ [OpUpdate 3, OpStop, OpStart 4, OpUpdate 5]))) 6 \<and>
   fst (update_effect (fst (run_effect_ops (create_heat_map_effect ''heat'' [0.1, 0.6] 2 [])
          ([OpStart 0, OpUpdate 1, OpUpdate 2] @ [OpUpdate 3, OpStop, OpStart 4, OpUpdate 5]))) 6)
     = Inr None"
proof -
  let ?e0 = "create_heat_map_effect ''heat'' [0.1, 0.6] 2 []"
  let ?ops = "[OpStart 0, OpUpdate 1, OpUpdate 2]"
  have n: "snd (run_effect_ops ?e0 ?ops) = 2"
    by (simp add: create_heat_map_effect_def BaseEffect_init_def BaseEffect_start_def
        update_effect_def HeatMapEffect_update_def)
  have full: "(2::int) \<le> int (snd (run_effect_ops ?e0 ?ops))"
    unfolding n by simp
  from HeatMap_bounded_iterations [of "''heat''" "[0.1, 0.6]" 2 "[]" ?ops] full n
  show ?thesis by blast
qed

subsection \<open>The fade\<close>

text \<open>
  C8, as the claim states it. A fade from black to white over 2 seconds is started at
  logical time 10 and updated at 9: the progress is \<open>-1/2\<close>, the source clamps it from
  above only, the smoothstep weight of \<open>-1/2\<close> is 1, and the pixel is the end color. With
  the progress clamped to \<open>[0, 1]\<close> the pixel would be the start color.
\<close>

theorem fade_unclamped_below:
  "fst (update_effect (BaseEffect_start (create_fade_effect ''f'' (0, 0, 0) (255, 255, 255) 2 [0]) 10) 9)
     = Inr (Some \<lparr>timestamp = 9, pixels = [(255, 255, 255)], indices = [0], brightness = 1,
                  frame_effect_id = ''f''\<rparr>) \<and>
   spec_fade_pixel (0, 0, 0) (255, 255, 255) 2 (9 - 10) = (0, 0, 0)"
  by (simp add: update_effect_def FadeEffect_update_def BaseEffect_start_def create_fade_effect_def
      BaseEffect_init_def ease_in_out_def fade_color_def spec_fade_pixel_def Let_def py_int_def)

lemma fade_color_0: "fade_color sc ec 0 = sc"
  by (cases sc; cases ec) (simp add: fade_color_def py_int_def)

lemma fade_color_1: "fade_color sc ec 1 = ec"
proof -
  obtain s0 s1 s2 where sc: "sc = (s0, s1, s2)" by (cases sc)
  obtain e0 e1 e2 where ec: "ec = (e0, e1, e2)" by (cases ec)
  have "py_int (real_of_int s + real_of_int (e - s)) = e" for s e
  proof -
    have "real_of_int s + real_of_int (e - s) = real_of_int e" by simp
    then show ?thesis by (simp add: py_int_def)
  qed
  then show ?thesis by (simp add: sc ec fade_color_def)
qed

text \<open>
  C8, amended. The update of a running fade whose duration is not zero emits, on each of
  its pixels, the interpolation between the start and the end color with the smoothstep
  weight \<open>3t\<^sup>2 - 2t\<^sup>3\<close> at \<open>t = min(1, elapsed / fade_duration)\<close>, each channel truncated
  to an integer: the progress is clamped from above only. The pixel is the start color at
  \<open>t = 0\<close>, the end color at \<open>t = 1\<close> (so whenever \<open>elapsed / fade_duration \<ge> 1\<close>), and
  the blend of weight \<open>1/2\<close> at \<open>t = 1/2\<close>.
\<close>

theorem FadeEffect_update_smoothstep:
  assumes "variant e = FadeEffect sc ec d" and "state e = RUNNING" and "d \<noteq> 0"
    and "t = min 1 ((now - start_time e) / d)"
  shows
    "update_effect e now
       = (Inr (Some \<lparr>timestamp = now,
                     pixels = map (\<lambda>_. fade_color sc ec (3 * t\<^sup>2 - 2 * t ^ 3)) (pixel_indices e),
                     indices = pixel_indices e, brightness = 1,
                     frame_effect_id = effect_id e\<rparr>), e) \<and>
     (1 \<le> (now - start_time e) / d \<longrightarrow> t = 1) \<and>
     (t = 0 \<longrightarrow> fade_color sc ec (3 * t\<^sup>2 - 2 * t ^ 3) = sc) \<and>
     (t = 1 \<longrightarrow> fade_color sc ec (3 * t\<^sup>2 - 2 * t ^ 3) = ec) \<and>
     (t = 1 / 2 \<longrightarrow> fade_color sc ec (3 * t\<^sup>2 - 2 * t ^ 3) = fade_color sc ec (1 / 2))"
proof -
  have w: "ease_in_out x = 3 * x\<^sup>2 - 2 * x ^ 3" for x
    by (simp add: ease_in_out_def power2_eq_square power3_eq_cube algebra_simps)
  have upd: "update_effect e now
       = (Inr (Some \<lparr>timestamp = now,
                     pixels = map (\<lambda>_. fade_color sc ec (3 * t\<^sup>2 - 2 * t ^ 3)) (pixel_indices e),
                     indices = pixel_indices e, brightness = 1,
                     frame_effect_id = effect_id e\<rparr>), e)"
    using assms by (simp add: update_effect_def FadeEffect_update_def Let_def w)
  have half: "3 * (1 / 2 :: real)\<^sup>2 - 2 * (1 / 2) ^ 3 = 1 / 2"
    by (simp add: power2_eq_square power3_eq_cube)
  have c1: "1 \<le> (now - start_time e) / d \<longrightarrow> t = 1"
    using assms(4) by simp
  have c2: "t = 0 \<longrightarrow> fade_color sc ec (3 * t\<^sup>2 - 2 * t ^ 3) = sc"
    by (simp add: fade_color_0)
  have c3: "t = 1 \<longrightarrow> fade_color sc ec (3 * t\<^sup>2 - 2 * t ^ 3) = ec"
    by (simp add: fade_color_1)
  have c4: "t = 1 / 2 \<longrightarrow> fade_color sc ec (3 * t\<^sup>2 - 2 * t ^ 3) = fade_color sc ec (1 / 2)"
  proof
    assume t: "t = 1 / 2"
    show "fade_color sc ec (3 * t\<^sup>2 - 2 * t ^ 3) = fade_color sc ec (1 / 2)"
      by (simp only: t half)
  qed
  show ?thesis
    using upd c1 c2 c3 c4 by blast
qed

theorem FadeEffect_update_smoothstep_witness:
  "update_effect (BaseEffect_start (create_fade_effect ''f'' (10, 20, 30) (110, 220, 31) 2 [0, 1]) 10) 11
     = (Inr (Some \<lparr>timestamp = 11, pixels = [(60, 120, 30), (60, 120, 30)], indices = [0, 1],
                    brightness = 1, frame_effect_id = ''f''\<rparr>),
        BaseEffect_start (create_fade_effect ''f'' (10, 20, 30) (110, 220, 31) 2 [0, 1]) 10) \<and>
   update_effect (BaseEffect_start (create_fade_effect ''f'' (10, 20, 30) (110, 220, 31) 2 [0, 1]) 10) 10
     = (Inr (Some \<lparr>timestamp = 10, pixels = [(10, 20, 30), (10, 20, 30)], indices = [0, 1],
                    brightness = 1, frame_effect_id = ''f''\<rparr>),
        BaseEffect_start (create_fade_effect ''f'' (10, 20, 30) (110, 220, 31) 2 [0, 1]) 10) \<and>
   update_effect (BaseEffect_start (create_fade_effect ''f'' (10, 20, 30) (110, 220, 31) 2 [0, 1]) 10) 15
     = (Inr (Some \<lparr>timestamp = 15, pixels = [(110, 220, 31), (110, 220, 31)], indices = [0, 1],
                    brightness = 1, frame_effect_id = ''f''\<rparr>),
        BaseEffect_start (create_fade_effect ''f'' (10, 20, 30) (110, 220, 31) 2 [0, 1]) 10)"
proof -
  let ?e = "BaseEffect_start (create_fade_effect ''f'' (10, 20, 30) (110, 220, 31) 2 [0, 1]) 10"
  have v: "variant ?e = FadeEffect (10, 20, 30) (110, 220, 31) 2"
    and r: "state ?e = RUNNING" and d: "(2::real) \<noteq> 0"
    and st: "start_time ?e = 10" and px: "pixel_indices ?e = [0, 1]" and ei: "effect_id ?e = ''f''"
    by (simp_all add: BaseEffect_start_def create_fade_effect_def BaseEffect_init_def)
  have h: "fade_color (10, 20, 30) (110, 220, 31) (1 / 2) = (60, 120, 30)"
    by (simp add: fade_color_def py_int_def)
  have a: "(1 / 2 :: real) = min 1 ((11 - start_time ?e) / 2)" by (simp add: st)
  have b: "(0 :: real) = min 1 ((10 - start_time ?e) / 2)" by (simp add: st)
  have c: "(1 :: real) = min 1 ((15 - start_time ?e) / 2)" by (simp add: st)
  show ?thesis
    using FadeEffect_update_smoothstep [OF v r d a]
      FadeEffect_update_smoothstep [OF v r d b]
      FadeEffect_update_smoothstep [OF v r d c]
    by (simp add: h px ei)
qed

section \<open>Properties of the compositor\<close>

lemma blend_at_length:
  "blend_at buf i p = Inr buf' \<Longrightarrow> length buf' = length buf"
  by (auto simp add: blend_at_def Let_def split: if_splits)

lemma apply_entries_length:
  "apply_entries es buf = Inr buf' \<Longrightarrow> length buf' = length buf"
proof (induction es arbitrary: buf)
  case Nil
  then show ?case by simp
next
  case (Cons a es)
  obtain i p where a: "a = (i, p)" by (cases a)
  show ?case
  proof (cases "i < int (length buf)")
    case True
    with Cons.prems a obtain b1 where b1: "blend_at buf i p = Inr b1"
      and rest: "apply_entries es b1 = Inr buf'"
      by (auto split: sum.splits)
    from Cons.IH [OF rest] blend_at_length [OF b1] show ?thesis by simp
  next
    case False
    with Cons.prems a have "apply_entries es buf = Inr buf'" by simp
    then show ?thesis by (rule Cons.IH)
  qed
qed

lemma apply_pixels_entries:
  "apply_pixels idxs i ps buf = apply_entries (zip (drop i idxs) ps) buf"
proof (induction ps arbitrary: i buf)
  case Nil
  then show ?case by simp
next
  case (Cons p ps)
  show ?case
  proof (cases "i < length idxs")
    case True
    then have d: "drop i idxs = idxs ! i # drop (Suc i) idxs"
      by (simp add: Cons_nth_drop_Suc)
    show ?thesis
      using True by (simp add: d Cons.IH Let_def split: sum.splits)
  next
    case False
    then show ?thesis by (simp add: Cons.IH)
  qed
qed

lemma apply_entries_filter:
  "apply_entries (filter (\<lambda>(i, p). i < int (length buf)) es) buf = apply_entries es buf"
proof (induction es arbitrary: buf)
  case Nil
  then show ?case by simp
next
  case (Cons a es)
  obtain i p where a: "a = (i, p)" by (cases a)
  show ?case
  proof (cases "i < int (length buf)")
    case True
    show ?thesis
    proof (cases "blend_at buf i p")
      case (Inl e)
      with True a show ?thesis by simp
    next
      case (Inr b1)
      from blend_at_length [OF Inr] have "length b1 = length buf" .
      with Cons.IH [of b1] True a Inr show ?thesis by simp
    qed
  next
    case False
    with a Cons.IH [of buf] show ?thesis by simp
  qed
qed

lemma apply_pixels_clip:
  "apply_pixels (indices (clip_frame (length buf) f)) 0 (pixels (clip_frame (length buf) f)) buf
     = apply_pixels (indices f) 0 (pixels f) buf"
  by (simp add: apply_pixels_entries clip_frame_def zip_map_fst_snd apply_entries_filter)

lemma apply_frames_length:
  "apply_frames fs buf = Inr buf' \<Longrightarrow> length buf' = length buf"
proof (induction fs arbitrary: buf)
  case Nil
  then show ?case by simp
next
  case (Cons f fs)
  from Cons.prems obtain b1 where b1: "apply_pixels (indices f) 0 (pixels f) buf = Inr b1"
    and rest: "apply_frames fs b1 = Inr buf'"
    by (auto split: sum.splits)
  from b1 have "length b1 = length buf"
    by (simp add: apply_pixels_entries apply_entries_length)
  with Cons.IH [OF rest] show ?case by simp
qed

lemma apply_frames_clip:
  "apply_frames (map (clip_frame (length buf)) fs) buf = apply_frames fs buf"
proof (induction fs arbitrary: buf)
  case Nil
  then show ?case by simp
next
  case (Cons f fs)
  show ?case
  proof (cases "apply_pixels (indices f) 0 (pixels f) buf")
    case (Inl e)
    then show ?thesis by (simp add: apply_pixels_clip)
  next
    case (Inr b1)
    then have "length b1 = length buf"
      by (simp add: apply_pixels_entries apply_entries_length)
    with Cons.IH [of b1] Inr show ?thesis by (simp add: apply_pixels_clip)
  qed
qed

lemma insort_key_map:
  assumes "\<And>x. f (g x) = f x"
  shows "insort_key f (g x) (map g ys) = map g (insort_key f x ys)"
  by (induction ys) (simp_all add: assms)

lemma sort_key_map:
  assumes "\<And>x. f (g x) = f x"
  shows "sort_key f (map g xs) = map g (sort_key f xs)"
  by (induction xs) (simp_all add: insort_key_map [of f g, OF assms])

lemma priority_key_clip: "priority_key effs (clip_frame n f) = priority_key effs f"
  by (simp add: priority_key_def clip_frame_def)

lemma find_missing_clip:
  "find (\<lambda>f. map_of effs (frame_effect_id f) = None) (map (clip_frame n) fs)
     = map_option (clip_frame n) (find (\<lambda>f. map_of effs (frame_effect_id f) = None) fs)"
  by (induction fs) (simp_all add: clip_frame_def)

lemma combine_effects_clip:
  assumes "led_controller ctl = Some led"
  shows "combine_effects ctl (map (clip_frame (nat (number led))) frames)
           = combine_effects ctl frames"
proof (cases "find (\<lambda>f. map_of (effects ctl) (frame_effect_id f) = None) frames")
  case (Some f)
  then show ?thesis
    by (auto simp add: combine_effects_def find_missing_clip clip_frame_def)
next
  case None
  let ?n = "nat (number led)"
  let ?sorted = "sort_key (priority_key (effects ctl)) frames"
  have sm: "sort_key (priority_key (effects ctl)) (map (clip_frame ?n) frames)
              = map (clip_frame ?n) ?sorted"
    by (rule sort_key_map) (rule priority_key_clip)
  show ?thesis
  proof (cases ?sorted)
    case Nil
    then show ?thesis
      using None by (simp add: combine_effects_def find_missing_clip sm)
  next
    case (Cons combined others)
    have ap: "apply_frames (map (clip_frame ?n) (combined # others)) (replicate ?n (0, 0, 0))
                = apply_frames (combined # others) (replicate ?n (0, 0, 0))"
      using apply_frames_clip [of "replicate ?n (0, 0, 0)" "combined # others"] by simp
    have hd: "timestamp (clip_frame ?n combined) = timestamp combined"
             "brightness (clip_frame ?n combined) = brightness combined"
      by (simp_all add: clip_frame_def)
    show ?thesis
      using None assms Cons ap
      by (simp add: combine_effects_def find_missing_clip sm hd del: apply_frames.simps split: sum.splits)
  qed
qed


lemma blend_at_other:
  assumes "blend_at buf i p = Inr buf'" and "j < length buf"
    and "i \<noteq> int j" and "i \<noteq> int j - int (length buf)"
  shows "buf' ! j = buf ! j"
proof -
  let ?pos = "nat (if i < 0 then int (length buf) + i else i)"
  from assms(1) have in_range: "0 \<le> (if i < 0 then int (length buf) + i else i)"
    and buf': "buf' = buf[?pos := blend (buf ! ?pos) p]"
    by (auto simp add: blend_at_def Let_def split: if_splits)
  from in_range assms(3,4) have "?pos \<noteq> j" by (auto split: if_splits)
  then show ?thesis by (simp add: buf')
qed

lemma apply_entries_other:
  assumes "apply_entries es buf = Inr buf'" and "j < length buf"
    and "\<forall>(i, p)\<in>set es. i \<noteq> int j \<and> i \<noteq> int j - int (length buf)"
  shows "buf' ! j = buf ! j"
  using assms
proof (induction es arbitrary: buf)
  case Nil
  then show ?case by simp
next
  case (Cons a es)
  obtain i p where a: "a = (i, p)" by (cases a)
  from Cons.prems(3) a have ne: "i \<noteq> int j" "i \<noteq> int j - int (length buf)"
    and rest: "\<forall>(i, p)\<in>set es. i \<noteq> int j \<and> i \<noteq> int j - int (length buf)"
    by auto
  show ?case
  proof (cases "i < int (length buf)")
    case True
    with Cons.prems(1) a obtain b1 where b1: "blend_at buf i p = Inr b1"
      and r: "apply_entries es b1 = Inr buf'"
      by (auto split: sum.splits)
    from blend_at_length [OF b1] have len: "length b1 = length buf" .
    from Cons.IH [OF r] Cons.prems(2) rest len have "buf' ! j = b1 ! j" by simp
    also from blend_at_other [OF b1 Cons.prems(2) ne] have "b1 ! j = buf ! j" .
    finally show ?thesis .
  next
    case False
    with Cons.prems(1) a have "apply_entries es buf = Inr buf'" by simp
    from Cons.IH [OF this Cons.prems(2) rest] show ?thesis .
  qed
qed

lemma apply_frames_other:
  assumes "apply_frames fs buf = Inr buf'" and "j < length buf"
    and "\<forall>f\<in>set fs. \<forall>(i, p)\<in>set (zip (indices f) (pixels f)).
           i \<noteq> int j \<and> i \<noteq> int j - int (length buf)"
  shows "buf' ! j = buf ! j"
  using assms
proof (induction fs arbitrary: buf)
  case Nil
  then show ?case by simp
next
  case (Cons f fs)
  from Cons.prems(1) obtain b1 where b1: "apply_entries (zip (indices f) (pixels f)) buf = Inr b1"
    and r: "apply_frames fs b1 = Inr buf'"
    by (auto simp add: apply_pixels_entries split: sum.splits)
  from apply_entries_length [OF b1] have len: "length b1 = length buf" .
  from Cons.prems(3) have here: "\<forall>(i, p)\<in>set (zip (indices f) (pixels f)).
           i \<noteq> int j \<and> i \<noteq> int j - int (length buf)"
    and rest: "\<forall>f\<in>set fs. \<forall>(i, p)\<in>set (zip (indices f) (pixels f)).
           i \<noteq> int j \<and> i \<noteq> int j - int (length buf)"
    by simp_all
  from Cons.IH [OF r] Cons.prems(2) rest len have "buf' ! j = b1 ! j" by simp
  also from apply_entries_other [OF b1 Cons.prems(2) here] have "b1 ! j = buf ! j" .
  finally show ?case .
qed

lemma apply_entries_ok:
  assumes "\<forall>(i, p)\<in>set es. - int (length buf) \<le> i"
  shows "\<exists>buf'. apply_entries es buf = Inr buf'"
  using assms
proof (induction es arbitrary: buf)
  case Nil
  then show ?case by simp
next
  case (Cons a es)
  obtain i p where a: "a = (i, p)" by (cases a)
  from Cons.prems a have lo: "- int (length buf) \<le> i"
    and rest: "\<forall>(i, p)\<in>set es. - int (length buf) \<le> i" by auto
  show ?case
  proof (cases "i < int (length buf)")
    case True
    with lo have "\<exists>b1. blend_at buf i p = Inr b1"
      by (cases "i < 0") (simp_all add: blend_at_def Let_def)
    then obtain b1 where b1: "blend_at buf i p = Inr b1" by blast
    from blend_at_length [OF b1] rest have "\<forall>(i, p)\<in>set es. - int (length b1) \<le> i" by simp
    from Cons.IH [OF this] True a b1 show ?thesis by simp
  next
    case False
    with Cons.IH [OF rest] a show ?thesis by simp
  qed
qed

lemma apply_frames_ok:
  assumes "\<forall>f\<in>set fs. \<forall>i\<in>set (indices f). - int (length buf) \<le> i"
  shows "\<exists>buf'. apply_frames fs buf = Inr buf'"
  using assms
proof (induction fs arbitrary: buf)
  case Nil
  then show ?case by simp
next
  case (Cons f fs)
  from Cons.prems have "\<forall>(i, p)\<in>set (zip (indices f) (pixels f)). - int (length buf) \<le> i"
    by (auto dest: set_zip_leftD)
  from apply_entries_ok [OF this]
  obtain b1 where b1: "apply_entries (zip (indices f) (pixels f)) buf = Inr b1" by blast
  from apply_entries_length [OF b1] Cons.prems
  have "\<forall>f\<in>set fs. \<forall>i\<in>set (indices f). - int (length b1) \<le> i" by simp
  from Cons.IH [OF this] b1 show ?case by (simp add: apply_pixels_entries)
qed

lemma combine_effects_led:
  assumes "led_controller ctl = Some led"
    and "combine_effects ctl frames = Inr (Some cf)"
  shows "apply_frames (sort_key (priority_key (effects ctl)) frames)
           (replicate (nat (number led)) (0, 0, 0)) = Inr (pixels cf)"
    and "indices cf = map int [0..<nat (number led)]"
    and "\<exists>combined others. sort_key (priority_key (effects ctl)) frames = combined # others
           \<and> timestamp cf = timestamp combined \<and> brightness cf = brightness combined"
  using assms
  by (auto simp add: combine_effects_def simp del: apply_frames.simps
      split: if_splits option.splits list.splits sum.splits)

lemma combine_effects_ok:
  assumes "led_controller ctl = Some led" and "frames \<noteq> []"
    and "\<forall>f\<in>set frames. map_of (effects ctl) (frame_effect_id f) \<noteq> None"
    and "\<forall>f\<in>set frames. \<forall>i\<in>set (indices f). - int (nat (number led)) \<le> i"
  shows "\<exists>cf. combine_effects ctl frames = Inr (Some cf)"
proof -
  let ?sorted = "sort_key (priority_key (effects ctl)) frames"
  from assms(3) have nf: "find (\<lambda>f. map_of (effects ctl) (frame_effect_id f) = None) frames = None"
    by (simp add: find_None_iff)
  from assms(2) have "?sorted \<noteq> []" by (metis length_sort length_0_conv)
  then obtain combined others where so: "?sorted = combined # others" by (cases ?sorted) auto
  from assms(4) have "\<forall>f\<in>set ?sorted. \<forall>i\<in>set (indices f).
      - int (length (replicate (nat (number led)) ((0, 0, 0)::rgb))) \<le> i" by simp
  from apply_frames_ok [OF this]
  obtain buf' where "apply_frames ?sorted (replicate (nat (number led)) (0, 0, 0)) = Inr buf'"
    by blast
  with assms(1,2) nf so show ?thesis
    by (simp add: combine_effects_def del: apply_frames.simps)
qed

text \<open>
  C10. With an LED controller of \<open>n\<close> pixels, every combined frame has exactly \<open>n\<close>
  pixels and the indices \<open>0, ..., n - 1\<close>, and a pixel that no entry of a frame addresses
  (as \<open>j\<close>, or as \<open>j - n\<close> from the end) is black. The entries of a frame whose index is
  \<open>n\<close> or more and the pixels beyond the length of its index list are ignored: the
  compositor returns the same, frame or exception, as on the frames without them, so they
  are neither written nor the cause of an exception. It returns a frame whenever there is
  a frame to combine, every frame comes from a registered effect and no index is below
  \<open>-n\<close>.
\<close>

theorem combine_effects_full_strip:
  assumes "led_controller ctl = Some led" and "n = nat (number led)"
  shows
    "(combine_effects ctl frames = Inr (Some cf) \<longrightarrow>
        length (pixels cf) = n \<and> indices cf = map int [0..<n] \<and>
        (\<forall>j<n. (\<forall>f\<in>set frames. \<forall>(i, p)\<in>set (zip (indices f) (pixels f)).
                    i \<noteq> int j \<and> i \<noteq> int j - int n)
                \<longrightarrow> pixels cf ! j = (0, 0, 0))) \<and>
     combine_effects ctl (map (clip_frame n) frames) = combine_effects ctl frames \<and>
     (frames \<noteq> [] \<and>
      (\<forall>f\<in>set frames. map_of (effects ctl) (frame_effect_id f) \<noteq> None \<and>
                       (\<forall>i\<in>set (indices f). - int n \<le> i))
        \<longrightarrow> (\<exists>cf'. combine_effects ctl frames = Inr (Some cf')))"
proof -
  let ?sorted = "sort_key (priority_key (effects ctl)) frames"
  let ?black = "replicate n ((0, 0, 0)::rgb)"
  have shape: "length (pixels cf) = n \<and> indices cf = map int [0..<n] \<and>
        (\<forall>j<n. (\<forall>f\<in>set frames. \<forall>(i, p)\<in>set (zip (indices f) (pixels f)).
                    i \<noteq> int j \<and> i \<noteq> int j - int n)
                \<longrightarrow> pixels cf ! j = (0, 0, 0))"
    if ok: "combine_effects ctl frames = Inr (Some cf)"
  proof -
    from combine_effects_led [OF assms(1) ok] assms(2)
    have ap: "apply_frames ?sorted ?black = Inr (pixels cf)"
      and ix: "indices cf = map int [0..<n]" by simp_all
    from apply_frames_length [OF ap] have len: "length (pixels cf) = n" by simp
    have black: "pixels cf ! j = (0, 0, 0)"
      if "j < n" and "\<forall>f\<in>set frames. \<forall>(i, p)\<in>set (zip (indices f) (pixels f)).
                    i \<noteq> int j \<and> i \<noteq> int j - int n" for j
    proof -
      from that have "j < length ?black"
        and "\<forall>f\<in>set ?sorted. \<forall>(i, p)\<in>set (zip (indices f) (pixels f)).
               i \<noteq> int j \<and> i \<noteq> int j - int (length ?black)"
        by simp_all
      from apply_frames_other [OF ap this] that(1) show ?thesis by simp
    qed
    from len ix black show ?thesis by blast
  qed
  have clip: "combine_effects ctl (map (clip_frame n) frames) = combine_effects ctl frames"
    unfolding assms(2) using assms(1) by (rule combine_effects_clip)
  have succ: "\<exists>cf'. combine_effects ctl frames = Inr (Some cf')"
    if "frames \<noteq> []"
      and "\<forall>f\<in>set frames. map_of (effects ctl) (frame_effect_id f) \<noteq> None \<and>
                       (\<forall>i\<in>set (indices f). - int n \<le> i)"
    using combine_effects_ok [OF assms(1) that(1)] that(2) assms(2) by blast
  from shape clip succ show ?thesis by blast
qed

theorem combine_effects_full_strip_witness:
  "led_controller (running_controller 3 [(''a'', create_fade_effect ''a'' (0, 0, 0) (255, 0, 0) 2 [0, 5, 1])])
     = Some \<lparr>number = 3, led_calls = []\<rparr> \<and>
   combine_effects (running_controller 3 [(''a'', create_fade_effect ''a'' (0, 0, 0) (255, 0, 0) 2 [0, 5, 1])])
      [\<lparr>timestamp = 1, pixels = [(100, 0, 0), (9, 9, 9), (0, 50, 0), (7, 7, 7)],
        indices = [0, 5, 1], brightness = 1, frame_effect_id = ''a''\<rparr>]
     = Inr (Some \<lparr>timestamp = 1, pixels = [(50, 0, 0), (0, 25, 0), (0, 0, 0)],
                  indices = map int [0..<3], brightness = 1, frame_effect_id = ''combined''\<rparr>) \<and>
   clip_frame 3 \<lparr>timestamp = 1, pixels = [(100, 0, 0), (9, 9, 9), (0, 50, 0), (7, 7, 7)],
                 indices = [0, 5, 1], brightness = 1, frame_effect_id = ''a''\<rparr>
     = \<lparr>timestamp = 1, pixels = [(100, 0, 0), (0, 50, 0)], indices = [0, 1], brightness = 1,
        frame_effect_id = ''a''\<rparr> \<and>
   combine_effects (running_controller 3 [(''a'', create_fade_effect ''a'' (0, 0, 0) (255, 0, 0) 2 [0, 5, 1])])
      (map (clip_frame 3)
         [\<lparr>timestamp = 1, pixels = [(100, 0, 0), (9, 9, 9), (0, 50, 0), (7, 7, 7)],
           indices = [0, 5, 1], brightness = 1, frame_effect_id = ''a''\<rparr>])
     = combine_effects (running_controller 3 [(''a'', create_fade_effect ''a'' (0, 0, 0) (255, 0, 0) 2 [0, 5, 1])])
      [\<lparr>timestamp = 1, pixels = [(100, 0, 0), (9, 9, 9), (0, 50, 0), (7, 7, 7)],
        indices = [0, 5, 1], brightness = 1, frame_effect_id = ''a''\<rparr>]"
proof -
  let ?ctl = "running_controller 3 [(''a'', create_fade_effect ''a'' (0, 0, 0) (255, 0, 0) 2 [0, 5, 1])]"
  let ?f = "\<lparr>timestamp = 1, pixels = [(100, 0, 0), (9, 9, 9), (0, 50, 0), (7, 7, 7)],
             indices = [0, 5, 1], brightness = 1, frame_effect_id = ''a''\<rparr>"
  have led: "led_controller ?ctl = Some \<lparr>number = 3, led_calls = []\<rparr>"
    by (simp add: running_controller_def)
  have n: "(3::nat) = nat (number \<lparr>number = 3, led_calls = []\<rparr>)" by simp
  have val: "combine_effects ?ctl [?f]
     = Inr (Some \<lparr>timestamp = 1, pixels = [(50, 0, 0), (0, 25, 0), (0, 0, 0)],
                  indices = map int [0..<3], brightness = 1, frame_effect_id = ''combined''\<rparr>)"
    by (simp add: combine_effects_def running_controller_def blend_at_def blend_def
        blend_channel_def py_int_def Let_def numeral_3_eq_3)
  have cl: "clip_frame 3 ?f
     = \<lparr>timestamp = 1, pixels = [(100, 0, 0), (0, 50, 0)], indices = [0, 1], brightness = 1,
        frame_effect_id = ''a''\<rparr>"
    by (simp add: clip_frame_def)
  from combine_effects_full_strip [OF led n, of "[?f]"]
  have "combine_effects ?ctl (map (clip_frame 3) [?f]) = combine_effects ?ctl [?f]"
    by blast
  with led val cl show ?thesis by blast
qed

lemma blend_channel_half: "blend_channel c v = py_int (real_of_int (c + v) / 2)"
  by (simp add: blend_channel_def Let_def add_divide_distrib)

lemma blend_channel_nonneg: "0 \<le> c \<Longrightarrow> 0 \<le> v \<Longrightarrow> blend_channel c v = (c + v) div 2"
proof -
  assume "0 \<le> c" "0 \<le> v"
  then have "0 \<le> real_of_int (c + v) / 2" by simp
  then have "blend_channel c v = \<lfloor>real_of_int (c + v) / 2\<rfloor>"
    by (simp add: blend_channel_half py_int_def)
  also have "\<dots> = (c + v) div 2"
    using floor_divide_of_int_eq [of "c + v" 2, where ?'a = real] by simp
  finally show ?thesis .
qed

text \<open>
  C4, as the claim states it. An alert of priority CRITICAL writes (200, 0, 0) and a heat
  map of priority LOW writes (0, 0, 200) on pixel 0. The source sorts by ascending
  priority value, so the alert is blended first and the heat map last: the pixel is
  (50, 0, 100), in which the effect of lower priority weighs most. With the effect of
  higher priority composited last it would be (100, 0, 50).
\<close>

theorem combine_effects_higher_priority_first:
  "combine_effects
      (running_controller 1
         [(''alert'', create_weather_effect ''alert'' ''rain'' 1 [0]),
          (''heat'', create_heat_map_effect ''heat'' [0.1] 100 [])])
      [pixel_frame ''alert'' 0 (200, 0, 0), pixel_frame ''heat'' 0 (0, 0, 200)]
     = Inr (Some \<lparr>timestamp = 0, pixels = [(50, 0, 100)], indices = [0], brightness = 1,
                  frame_effect_id = ''combined''\<rparr>) \<and>
   spec_composite_higher_priority_last
      [(''alert'', create_weather_effect ''alert'' ''rain'' 1 [0]),
       (''heat'', create_heat_map_effect ''heat'' [0.1] 100 [])]
      [pixel_frame ''alert'' 0 (200, 0, 0), pixel_frame ''heat'' 0 (0, 0, 200)]
      [(0, 0, 0)]
     = Inr [(100, 0, 50)]"
  by (simp add: combine_effects_def spec_composite_higher_priority_last_def running_controller_def
      pixel_frame_def priority_key_def create_weather_effect_def create_heat_map_effect_def
      BaseEffect_init_def blend_at_def blend_def blend_channel_def py_int_def Let_def)

lemma apply_single_pixel:
  assumes "0 \<le> k" and "k < int (length buf)"
  shows "apply_pixels [k] 0 [c] buf = Inr (buf[nat k := blend (buf ! nat k) c])"
  using assms by (simp add: blend_at_def Let_def)

text \<open>
  C4, amended. The compositor applies the frames in ascending order of priority value:
  the frames of the effects of higher priority are blended first, those of lower priority
  last. At each pixel it touches, a frame's color is blended with the current value of
  the buffer at the fixed weight \<open>1/2\<close>, each channel truncated to an integer. So two
  effects that share a pixel, of priorities P1 (higher) and P2 (lower), in whichever order
  their frames were produced, give the color \<open>blend (blend black c1) c2\<close>, which on
  channels that are not negative is \<open>(c1 div 2 + c2) div 2\<close>: a blend determined by the
  two colors, and not the color of P1 written over the pixel. The combined frame takes its
  timestamp and brightness from the frame of P1.
\<close>

theorem combine_effects_priority_blend:
  assumes "led_controller ctl = Some led"
    and "map_of (effects ctl) hi_id = Some hi" and "map_of (effects ctl) lo_id = Some lo"
    and "priority_value (priority hi) < priority_value (priority lo)"
    and "0 \<le> k" and "k < number led"
    and "hi_frame = \<lparr>timestamp = hi_ts, pixels = [hi_color], indices = [k], brightness = hi_brightness,
                frame_effect_id = hi_id\<rparr>"
    and "lo_frame = \<lparr>timestamp = lo_ts, pixels = [lo_color], indices = [k], brightness = lo_brightness,
                frame_effect_id = lo_id\<rparr>"
    and "frames = [hi_frame, lo_frame] \<or> frames = [lo_frame, hi_frame]"
  shows
    "combine_effects ctl frames
       = Inr (Some \<lparr>timestamp = hi_ts,
                    pixels = (replicate (nat (number led)) (0, 0, 0))
                               [nat k := blend (blend (0, 0, 0) hi_color) lo_color],
                    indices = map int [0..<nat (number led)], brightness = hi_brightness,
                    frame_effect_id = ''combined''\<rparr>) \<and>
     blend (cr, cg, cb) (r, g, b)
       = (py_int (real_of_int (cr + r) / 2), py_int (real_of_int (cg + g) / 2),
          py_int (real_of_int (cb + b) / 2)) \<and>
     (0 \<le> x \<and> 0 \<le> y \<longrightarrow> blend_channel (blend_channel 0 x) y = (x div 2 + y) div 2) \<and>
     (combine_effects ctl fs = Inr (Some cf) \<longrightarrow>
        sorted (map (priority_key (effects ctl)) (sort_key (priority_key (effects ctl)) fs)) \<and>
        apply_frames (sort_key (priority_key (effects ctl)) fs)
          (replicate (nat (number led)) (0, 0, 0)) = Inr (pixels cf))"
proof -
  let ?key = "priority_key (effects ctl)"
  let ?n = "nat (number led)"
  let ?black = "replicate ?n ((0, 0, 0)::rgb)"
  have k1: "?key hi_frame = priority_value (priority hi)" and k2: "?key lo_frame = priority_value (priority lo)"
    using assms(2,3,7,8) by (simp_all add: priority_key_def)
  with assms(4) have lt: "?key hi_frame < ?key lo_frame" by simp
  from assms(9) lt have so: "sort_key ?key frames = [hi_frame, lo_frame]" by auto
  from assms(2,3,7,8,9) have nf: "find (\<lambda>f. map_of (effects ctl) (frame_effect_id f) = None) frames = None"
    by auto
  from assms(9) have ne: "frames \<noteq> []" by auto
  from assms(5,6) have kn: "nat k < ?n" and kb: "k < int (length ?black)" by simp_all
  have a1: "apply_pixels (indices hi_frame) 0 (pixels hi_frame) ?black = Inr (?black[nat k := blend (0, 0, 0) hi_color])"
    using apply_single_pixel [OF assms(5) kb, of hi_color] kn by (simp add: assms(7))
  have kb': "k < int (length (?black[nat k := blend (0, 0, 0) hi_color]))" using kb by simp
  have a2: "apply_pixels (indices lo_frame) 0 (pixels lo_frame) (?black[nat k := blend (0, 0, 0) hi_color])
              = Inr (?black[nat k := blend (blend (0, 0, 0) hi_color) lo_color])"
    using apply_single_pixel [OF assms(5) kb', of lo_color] kn by (simp add: assms(8))
  have ap: "apply_frames [hi_frame, lo_frame] ?black = Inr (?black[nat k := blend (blend (0, 0, 0) hi_color) lo_color])"
    by (simp add: a1 a2)
  have main: "combine_effects ctl frames
       = Inr (Some \<lparr>timestamp = hi_ts,
                    pixels = ?black[nat k := blend (blend (0, 0, 0) hi_color) lo_color],
                    indices = map int [0..<?n], brightness = hi_brightness,
                    frame_effect_id = ''combined''\<rparr>)"
    using ne nf so ap assms(1) by (simp add: combine_effects_def assms(7) del: apply_frames.simps)
  have bl: "blend (cr, cg, cb) (r, g, b)
       = (py_int (real_of_int (cr + r) / 2), py_int (real_of_int (cg + g) / 2),
          py_int (real_of_int (cb + b) / 2))"
    by (simp add: blend_def blend_channel_half)
  have ch: "blend_channel (blend_channel 0 x) y = (x div 2 + y) div 2" if "0 \<le> x" "0 \<le> y"
  proof -
    from that have h: "blend_channel 0 x = x div 2" by (simp add: blend_channel_nonneg)
    from that have "0 \<le> x div 2" by simp
    with that show ?thesis by (simp add: h blend_channel_nonneg)
  qed
  have ord: "sorted (map ?key (sort_key ?key fs)) \<and> apply_frames (sort_key ?key fs) ?black = Inr (pixels cf)"
    if "combine_effects ctl fs = Inr (Some cf)"
    using combine_effects_led(1) [OF assms(1) that] by simp
  from main bl ch ord show ?thesis by blast
qed

theorem combine_effects_priority_blend_witness:
  "combine_effects
      (running_controller 2
         [(''heat'', create_heat_map_effect ''heat'' [0.1] 100 []),
          (''alert'', create_weather_effect ''alert'' ''rain'' 1 [0])])
      [\<lparr>timestamp = 5, pixels = [(0, 0, 200)], indices = [1], brightness = 0.5,
        frame_effect_id = ''heat''\<rparr>,
       \<lparr>timestamp = 5, pixels = [(200, 0, 0)], indices = [1], brightness = 1,
        frame_effect_id = ''alert''\<rparr>]
     = Inr (Some \<lparr>timestamp = 5, pixels = [(0, 0, 0), (50, 0, 100)],
                  indices = map int [0..<2], brightness = 1, frame_effect_id = ''combined''\<rparr>)"
proof -
  let ?heat = "create_heat_map_effect ''heat'' [0.1] 100 []"
  let ?alert = "create_weather_effect ''alert'' ''rain'' 1 [0]"
  let ?ctl = "running_controller 2 [(''heat'', ?heat), (''alert'', ?alert)]"
  let ?led = "\<lparr>number = 2, led_calls = []\<rparr>"
  have led: "led_controller ?ctl = Some ?led" by (simp add: running_controller_def)
  have m1: "map_of (effects ?ctl) ''alert'' = Some ?alert"
    and m2: "map_of (effects ?ctl) ''heat'' = Some ?heat"
    by (simp_all add: running_controller_def)
  have pr: "priority_value (priority ?alert) < priority_value (priority ?heat)"
    by (simp add: create_weather_effect_def create_heat_map_effect_def BaseEffect_init_def)
  have k0: "(0::int) \<le> 1" and k1: "(1::int) < number ?led" by simp_all
  have px: "(replicate (nat (number ?led)) ((0, 0, 0)::rgb))
              [nat 1 := blend (blend (0, 0, 0) (200, 0, 0)) (0, 0, 200)]
            = [(0, 0, 0), (50, 0, 100)]"
    by (simp add: blend_def blend_channel_def py_int_def Let_def numeral_2_eq_2)
  have inst: "combine_effects ?ctl
      [\<lparr>timestamp = 5, pixels = [(0, 0, 200)], indices = [1], brightness = 0.5,
        frame_effect_id = ''heat''\<rparr>,
       \<lparr>timestamp = 5, pixels = [(200, 0, 0)], indices = [1], brightness = 1,
        frame_effect_id = ''alert''\<rparr>]
     = Inr (Some \<lparr>timestamp = 5,
                  pixels = (replicate (nat (number ?led)) ((0, 0, 0)::rgb))
                             [nat 1 := blend (blend (0, 0, 0) (200, 0, 0)) (0, 0, 200)],
                  indices = map int [0..<nat (number ?led)], brightness = 1,
                  frame_effect_id = ''combined''\<rparr>)"
    by (rule combine_effects_priority_blend
          [OF led m1 m2 pr k0 k1 refl refl disjI2 [OF refl], THEN conjunct1])
  show ?thesis unfolding inst px by simp
qed

section \<open>Properties of the controller\<close>

text \<open>
  C9. \<^verbatim>\<open>add_effect\<close> with an id that is a key of the effect table returns False and the
  controller, with its table and the effect registered under that id, is as before;
  \<^verbatim>\<open>remove_effect\<close> with an id that is not a key returns False and the controller is as
  before. Both are total: neither has a path that raises.
\<close>

theorem add_remove_rejected:
  "(effect_id effect \<in> set (map fst (effects ctl)) \<longrightarrow> add_effect ctl effect = (False, ctl)) \<and>
   (eid \<notin> set (map fst (effects ctl)) \<longrightarrow> remove_effect ctl eid = (False, ctl))"
  by (simp add: add_effect_def remove_effect_def)

theorem add_remove_rejected_witness:
  "add_effect (running_controller 4 [(''fade'', create_fade_effect ''fade'' (0, 0, 0) (255, 0, 0) 2 [0, 1])])
      (create_weather_effect ''fade'' ''rain'' 1 [2])
     = (False, running_controller 4 [(''fade'', create_fade_effect ''fade'' (0, 0, 0) (255, 0, 0) 2 [0, 1])]) \<and>
   remove_effect (running_controller 4 [(''fade'', create_fade_effect ''fade'' (0, 0, 0) (255, 0, 0) 2 [0, 1])])
      ''rain''
     = (False, running_controller 4 [(''fade'', create_fade_effect ''fade'' (0, 0, 0) (255, 0, 0) 2 [0, 1])])"
  using add_remove_rejected
    [of "create_weather_effect ''fade'' ''rain'' 1 [2]"
        "running_controller 4 [(''fade'', create_fade_effect ''fade'' (0, 0, 0) (255, 0, 0) 2 [0, 1])]"
        "''rain''"]
  by (simp add: running_controller_def create_weather_effect_def BaseEffect_init_def)

subsection \<open>A fault in one effect\<close>

lemma update_effect_raises:
  assumes "update_effect e t = (Inl ex, e')"
  shows "e' = e" and "ex = ZeroDivisionError"
  using assms
  by (auto simp add: update_effect_def BlinkEffect_update_def WeatherEffect_update_def
      FadeEffect_update_def HeatMapEffect_update_def Let_def split: variant.splits if_splits)

lemma is_complete_state [simp]: "is_complete (e\<lparr>state := s\<rparr>) t = is_complete e t"
  by (simp add: is_complete_def is_timed_out_def split: variant.splits)

lemma tick_effect_fault:
  assumes "state e = RUNNING" and "fst (update_effect e t) = Inl ex"
  shows "tick_effect t e = (e\<lparr>state := (if is_complete e t then STOPPED else ERROR)\<rparr>, [])"
proof -
  obtain e' where u: "update_effect e t = (Inl ex, e')"
    using assms(2) by (cases "update_effect e t") auto
  from update_effect_raises(1) [OF u] have "e' = e" .
  with u assms(1) show ?thesis
    by (simp add: tick_effect_def BaseEffect_stop_def)
qed

lemma tick_effect_errored:
  "tick_effect t (e\<lparr>state := ERROR\<rparr>)
     = (e\<lparr>state := (if is_complete e t then STOPPED else ERROR)\<rparr>, [])"
  by (simp add: tick_effect_def BaseEffect_stop_def)

lemma update_effects_append:
  "update_effects t (xs @ ys)
     = (fst (update_effects t xs) @ fst (update_effects t ys),
        snd (update_effects t xs) @ snd (update_effects t ys))"
  by (induction xs) (auto split: prod.splits)

lemma update_effects_Cons:
  "update_effects t ((k, e) # ys)
     = ((k, fst (tick_effect t e)) # fst (update_effects t ys),
        snd (tick_effect t e) @ snd (update_effects t ys))"
  by (simp split: prod.splits)

lemma apply_entries_error: "apply_entries es buf = Inl ex \<Longrightarrow> ex = IndexError"
proof (induction es arbitrary: buf)
  case Nil
  then show ?case by simp
next
  case (Cons a es)
  obtain i p where a: "a = (i, p)" by (cases a)
  from Cons.prems a Cons.IH show ?case
    by (auto simp add: blend_at_def Let_def split: if_splits sum.splits)
qed

lemma apply_frames_error: "apply_frames fs buf = Inl ex \<Longrightarrow> ex = IndexError"
proof (induction fs arbitrary: buf)
  case Nil
  then show ?case by simp
next
  case (Cons f fs)
  from Cons.prems Cons.IH show ?case
    by (auto simp add: apply_pixels_entries dest: apply_entries_error split: sum.splits)
qed

lemma max_index_error: "max_index fs = Inl ex \<Longrightarrow> ex = ValueError"
  by (induction fs) (auto split: list.splits if_splits sum.splits)

lemma combine_effects_error:
  assumes "combine_effects ctl fs = Inl ex"
  shows "ex \<noteq> ZeroDivisionError"
  using assms
  by (auto simp add: combine_effects_def simp del: apply_frames.simps max_index.simps
      dest: apply_frames_error max_index_error
      split: if_splits option.splits list.splits sum.splits)

lemma update_error:
  assumes "fst (update ctl t_enter t_exit t_clock t_perf) = Inl ex"
  shows "ex \<noteq> ZeroDivisionError"
proof (cases "controller_state ctl = RUNNING")
  case False
  with assms show ?thesis by (simp add: update_def)
next
  case True
  obtain r fl' where w: "wait_for_next_frame (frame_limiter ctl) t_enter t_exit = (r, fl')"
    by (cases "wait_for_next_frame (frame_limiter ctl) t_enter t_exit")
  show ?thesis
  proof (cases r)
    case (Inl e)
    with w have "e = Exception ''Excessive frame skipping detected - potential hang''"
      by (auto simp add: wait_for_next_frame_def Let_def split: if_splits)
    with assms True w Inl show ?thesis by (auto simp add: update_def)
  next
    case (Inr proceed)
    with assms True w show ?thesis
      by (auto simp add: update_def Let_def dest: combine_effects_error
          split: if_splits prod.splits sum.splits)
  qed
qed

text \<open>
  C5, amended. When the update of a running effect raises during a tick that runs (the
  controller is running and the frame limiter lets the frame through), the exception is
  caught and is not what \<^verbatim>\<open>update\<close> returns; the handler sets that effect, and no other,
  to Errored, and the effect ends the tick Errored unless its \<^verbatim>\<open>is_complete\<close> holds at
  the time of the tick, in which case the completion test of the same tick stops it. It
  contributes no frame. Every other effect is updated as it would be on its own, and the
  whole tick (what is returned, the table, the frames composited and the calls made to the
  LED driver) is that of the controller in which the faulty effect was Errored on entry.
\<close>

theorem update_isolates_effect_fault:
  assumes "effects ctl = pre @ (k, e) # post" and "state e = RUNNING"
    and "now = get_time (shared_clock ctl) t_clock"
    and "fst (update_effect e now) = Inl ex"
    and "controller_state ctl = RUNNING" and "frame_skip_count (frame_limiter ctl) \<le> 9"
  shows
    "update_effects now (effects ctl)
       = (fst (update_effects now pre)
            @ (k, e\<lparr>state := (if is_complete e now then STOPPED else ERROR)\<rparr>)
            # fst (update_effects now post),
          snd (update_effects now pre) @ snd (update_effects now post)) \<and>
     update ctl t_enter t_exit t_clock t_perf
       = update (ctl\<lparr>effects := pre @ (k, e\<lparr>state := ERROR\<rparr>) # post\<rparr>)
           t_enter t_exit t_clock t_perf \<and>
     fst (update ctl t_enter t_exit t_clock t_perf) \<noteq> Inl ex"
proof -
  let ?e' = "e\<lparr>state := (if is_complete e now then STOPPED else ERROR)\<rparr>"
  have t1: "tick_effect now e = (?e', [])"
    using assms(2,4) by (rule tick_effect_fault)
  have t2: "tick_effect now (e\<lparr>state := ERROR\<rparr>) = (?e', [])"
    by (rule tick_effect_errored)
  have u1: "update_effects now (pre @ (k, e) # post)
       = (fst (update_effects now pre) @ (k, ?e') # fst (update_effects now post),
          snd (update_effects now pre) @ snd (update_effects now post))"
    by (simp only: update_effects_append update_effects_Cons t1) simp
  have u2: "update_effects now (pre @ (k, e\<lparr>state := ERROR\<rparr>) # post)
       = update_effects now (pre @ (k, e) # post)"
    by (simp only: update_effects_append update_effects_Cons t1 t2)
  have same: "update ctl t_enter t_exit t_clock t_perf
       = update (ctl\<lparr>effects := pre @ (k, e\<lparr>state := ERROR\<rparr>) # post\<rparr>)
           t_enter t_exit t_clock t_perf"
    using u2 assms(1,3,5) wait_for_next_frame_resets [OF assms(6), of t_enter t_exit]
    by (simp add: update_def Let_def split: prod.splits sum.splits)
  obtain e0 where "update_effect e now = (Inl ex, e0)"
    using assms(4) by (cases "update_effect e now") auto
  from update_effect_raises(2) [OF this] have "ex = ZeroDivisionError" .
  with update_error [of ctl t_enter t_exit t_clock t_perf ex]
  have np: "fst (update ctl t_enter t_exit t_clock t_perf) \<noteq> Inl ex" by blast
  from u1 same np assms(1) show ?thesis by simp
qed


text \<open>
  C5, as the claim states it. A fade of duration 0 is running, started at logical time 0:
  its update at time 1 raises ZeroDivisionError. \<^verbatim>\<open>update\<close> catches the exception and
  returns True, but the effect is not Errored after the tick: the completion test that
  follows the handler finds the fade complete and stops it.
\<close>

theorem errored_effect_ends_stopped:
  "fst (update_effect (BaseEffect_start (create_fade_effect ''f'' (0, 0, 0) (255, 0, 0) 0 [0]) 0) 1)
     = Inl ZeroDivisionError \<and>
   fst (update (running_controller 1
                  [(''f'', BaseEffect_start (create_fade_effect ''f'' (0, 0, 0) (255, 0, 0) 0 [0]) 0)])
          1 1 1 1) = Inr True \<and>
   map (state \<circ> snd)
     (effects (snd (update (running_controller 1
                  [(''f'', BaseEffect_start (create_fade_effect ''f'' (0, 0, 0) (255, 0, 0) 0 [0]) 0)])
          1 1 1 1))) = [STOPPED]"
  by (simp add: update_def wait_for_next_frame_def get_time_def running_controller_def
      tick_effect_def update_effect_def FadeEffect_update_def is_complete_def
      BaseEffect_start_def BaseEffect_stop_def create_fade_effect_def BaseEffect_init_def
      update_performance_metrics_def Let_def)

theorem update_isolates_effect_fault_witness:
  "fst (update_effect (BaseEffect_start (create_fade_effect ''f'' (0, 0, 0) (255, 0, 0) 0 [1]) 5) 1)
     = Inl ZeroDivisionError \<and>
   fst (update (running_controller 2
                  [(''f'', BaseEffect_start (create_fade_effect ''f'' (0, 0, 0) (255, 0, 0) 0 [1]) 5),
                   (''b'', BaseEffect_start
                             (BaseEffect_init ''b'' HIGH [0] (BlinkEffect (255, 0, 0) 0.5 2 0.5)) 0)])
          1 1 1 1) = Inr True \<and>
   map (state \<circ> snd)
     (effects (snd (update (running_controller 2
                  [(''f'', BaseEffect_start (create_fade_effect ''f'' (0, 0, 0) (255, 0, 0) 0 [1]) 5),
                   (''b'', BaseEffect_start
                             (BaseEffect_init ''b'' HIGH [0] (BlinkEffect (255, 0, 0) 0.5 2 0.5)) 0)])
          1 1 1 1))) = [ERROR, RUNNING] \<and>
   map_option led_calls
     (led_controller (snd (update (running_controller 2
                  [(''f'', BaseEffect_start (create_fade_effect ''f'' (0, 0, 0) (255, 0, 0) 0 [1]) 5),
                   (''b'', BaseEffect_start
                             (BaseEffect_init ''b'' HIGH [0] (BlinkEffect (255, 0, 0) 0.5 2 0.5)) 0)])
          1 1 1 1)))
     = Some [SetPixelColor 0 (127, 0, 0), SetPixelColor 1 (0, 0, 0), ShowPixels]"
proof -
  let ?f = "BaseEffect_start (create_fade_effect ''f'' (0, 0, 0) (255, 0, 0) 0 [1]) 5"
  let ?b = "BaseEffect_start (BaseEffect_init ''b'' HIGH [0] (BlinkEffect (255, 0, 0) 0.5 2 0.5)) 0"
  let ?ctl = "running_controller 2 [(''f'', ?f), (''b'', ?b)]"
  let ?ctl' = "?ctl\<lparr>effects := [] @ (''f'', ?f\<lparr>state := ERROR\<rparr>) # [(''b'', ?b)]\<rparr>"
  have effs: "effects ?ctl = [] @ (''f'', ?f) # [(''b'', ?b)]"
    by (simp add: running_controller_def)
  have run: "state ?f = RUNNING" by (simp add: BaseEffect_start_def)
  have now: "(1::real) = get_time (shared_clock ?ctl) 1"
    by (simp add: running_controller_def get_time_def)
  have raises: "fst (update_effect ?f 1) = Inl ZeroDivisionError"
    by (simp add: update_effect_def FadeEffect_update_def BaseEffect_start_def
        create_fade_effect_def BaseEffect_init_def)
  have on: "controller_state ?ctl = RUNNING"
    and fl: "frame_skip_count (frame_limiter ?ctl) \<le> 9"
    by (simp_all add: running_controller_def)
  note iso = update_isolates_effect_fault [OF effs run now raises on fl, of 1 1 1]
  have same: "update ?ctl 1 1 1 1 = update ?ctl' 1 1 1 1"
    using iso by blast
  have val: "fst (update ?ctl' 1 1 1 1) = Inr True \<and>
      map (state \<circ> snd) (effects (snd (update ?ctl' 1 1 1 1))) = [ERROR, RUNNING] \<and>
      map_option led_calls (led_controller (snd (update ?ctl' 1 1 1 1)))
        = Some [SetPixelColor 0 (127, 0, 0), SetPixelColor 1 (0, 0, 0), ShowPixels]"
    by (simp add: update_def wait_for_next_frame_def get_time_def running_controller_def
      tick_effect_def update_effect_def FadeEffect_update_def BlinkEffect_update_def
      is_complete_def is_timed_out_def py_fmod_def
      BaseEffect_start_def BaseEffect_stop_def create_fade_effect_def BaseEffect_init_def
      combine_effects_def priority_key_def blend_at_def blend_def blend_channel_def py_int_def
      render_frame_def update_performance_metrics_def Let_def numeral_2_eq_2)
  from raises same val show ?thesis by simp
qed

end
